theory Spec2Isabelle
  imports Main "HOL-Library.Multiset"
begin

section \<open>Exceptions and Python strings\<close>

text \<open>
  A raised exception is a value: the name of its class and the text that \<open>str(e)\<close>
  gives. Every exception of the model derives from Python's \<open>Exception\<close>, which is
  what the handlers of the pipeline catch.
\<close>

datatype error = Error (cls: string) (msg: string)

definition str_of :: "error \<Rightarrow> string" where
  "str_of e = msg e"

abbreviation UnsupportedFormatError :: "string \<Rightarrow> error" where
  "UnsupportedFormatError m \<equiv> Error ''UnsupportedFormatError'' m"

abbreviation PyException :: "string \<Rightarrow> error" where
  "PyException m \<equiv> Error ''Exception'' m"

abbreviation ValueError :: "string \<Rightarrow> error" where
  "ValueError m \<equiv> Error ''ValueError'' m"

abbreviation KeyError :: "string \<Rightarrow> error" where
  "KeyError m \<equiv> Error ''KeyError'' m"

abbreviation ZeroDivisionError :: "string \<Rightarrow> error" where
  "ZeroDivisionError m \<equiv> Error ''ZeroDivisionError'' m"

text \<open>
  Strings are lists of characters. \<open>str.isspace\<close> on the characters a \<open>char\<close> can hold:
  the code points 9 to 13, 28 to 32, 133 and 160.
\<close>

definition py_isspace :: "char \<Rightarrow> bool" where
  "py_isspace c = (let n = (of_char c :: nat) in
     (9 \<le> n \<and> n \<le> 13) \<or> (28 \<le> n \<and> n \<le> 32) \<or> n = 133 \<or> n = 160)"

definition py_strip :: "string \<Rightarrow> string" where
  "py_strip s = rev (dropWhile py_isspace (rev (dropWhile py_isspace s)))"

text \<open>
  \<open>str.split()\<close> without a separator: a scan that cuts at every run of whitespace and
  keeps no empty word. The first argument is the word read so far.
\<close>

fun py_split_scan :: "string \<Rightarrow> string \<Rightarrow> string list" where
  "py_split_scan w [] = (if w = [] then [] else [w])"
| "py_split_scan w (c # cs) =
     (if py_isspace c
      then (if w = [] then py_split_scan [] cs else w # py_split_scan [] cs)
      else py_split_scan (w @ [c]) cs)"

definition py_split :: "string \<Rightarrow> string list" where
  "py_split s = py_split_scan [] s"

fun py_join :: "string \<Rightarrow> string list \<Rightarrow> string" where
  "py_join sep [] = []"
| "py_join sep [w] = w"
| "py_join sep (w # v # ws) = w @ sep @ py_join sep (v # ws)"

text \<open>
  A slice \<open>xs[a:b]\<close>: a negative bound counts from the end, and both bounds are
  clamped to the list.
\<close>

definition py_slice :: "'a list \<Rightarrow> int \<Rightarrow> int \<Rightarrow> 'a list" where
  "py_slice xs a b =
     (let n = int (length xs);
          clamp = (\<lambda>k. if k < 0 then max (k + n) 0 else min k n);
          lo = clamp a;
          hi = clamp b
      in take (nat (hi - lo)) (drop (nat lo) xs))"

text \<open>The decimal text of a natural number, as an f-string renders it.\<close>

definition digit_char :: "nat \<Rightarrow> char" where
  "digit_char d = char_of (of_char CHR ''0'' + d)"

function str_nat :: "nat \<Rightarrow> string" where
  "str_nat n = (if n < 10 then [digit_char n] else str_nat (n div 10) @ [digit_char (n mod 10)])"
  by pat_completeness auto
termination
  by (relation "measure (\<lambda>n. n)") auto

declare str_nat.simps [simp del]

section \<open>Configuration\<close>

text \<open>
  The section \<open>processing_settings\<close> of the configuration file is a dictionary read
  with \<open>.get(key, default)\<close>: a key may be absent, and then the default of the call
  site applies.
\<close>

record processing_settings =
  chunk_size :: "int option"
  chunk_overlap :: "int option"
  min_chunk_size :: "int option"
  max_concurrent_files :: "int option"
  translation_enabled :: "bool option"
  force_translation :: "bool option"
  supported_formats :: "string list option"

definition dict_get :: "'a option \<Rightarrow> 'a \<Rightarrow> 'a" where
  "dict_get v d = (case v of None \<Rightarrow> d | Some x \<Rightarrow> x)"

text \<open>
  \<open>MultilingualRAGConfig\<close>: the loaded JSON. The property \<open>processing_settings\<close> is
  \<open>self.config['processing_settings']\<close>, a KeyError when the file has no such section.
\<close>

record MultilingualRAGConfig =
  config_processing_settings :: "processing_settings option"
  config_azure_openai :: "(string \<rightharpoonup> string) option"

definition get_processing_settings :: "MultilingualRAGConfig \<Rightarrow> error + processing_settings" where
  "get_processing_settings cfg =
     (case config_processing_settings cfg of
        None \<Rightarrow> Inl (KeyError ''processing_settings'')
      | Some ps \<Rightarrow> Inr ps)"

section \<open>Chunks\<close>

text \<open>
  The class \<open>Document\<close> of \<open>data_utils\<close>, with the fields the pipeline reads and
  writes; a field the constructor call leaves out is \<open>None\<close>.
\<close>

record Document =
  content :: string
  doc_id :: "string option"
  title :: "string option"
  filepath :: "string option"
  url :: "string option"
  metadata :: "(string \<times> string) list option"
  contentVector :: "int list option"

definition new_document :: "string \<Rightarrow> string \<Rightarrow> string \<Rightarrow> Document" where
  "new_document c t u =
     \<lparr>content = c, doc_id = None, title = Some t, filepath = None, url = Some u,
      metadata = None, contentVector = None\<rparr>"

subsection \<open>The fallback chunker\<close>

text \<open>
  The body of the loop \<open>for i in range(0, len(words), chunk_size - overlap)\<close> of
  \<open>_create_simple_chunks\<close>, for a positive step; \<open>i\<close> is the loop variable and
  \<open>chunks\<close> the list built so far. \<open>range\<close> refuses a step of zero before the loop
  is entered, so the first test of the function is never true when it is called.
\<close>

function simple_chunks_loop ::
  "int \<Rightarrow> nat \<Rightarrow> int \<Rightarrow> string \<Rightarrow> string \<Rightarrow> string list \<Rightarrow> nat \<Rightarrow> Document list \<Rightarrow> Document list"
where
  "simple_chunks_loop csize step mn fname u words i chunks =
     (if step = 0 \<or> length words \<le> i then chunks
      else
        (let chunk_words = py_slice words (int i) (int i + csize);
             chunk_text = py_join '' '' chunk_words
         in simple_chunks_loop csize step mn fname u words (i + step)
              (if mn \<le> int (length (py_strip chunk_text))
               then chunks @ [new_document chunk_text
                      (fname @ '' (chunk '' @ str_nat (length chunks + 1) @ '')'') u]
               else chunks)))"
  by pat_completeness auto
termination
  by (relation "measure (\<lambda>(csize, step, mn, fname, u, words, i, chunks). length words - i)") auto

declare simple_chunks_loop.simps [simp del]

definition create_simple_chunks ::
  "MultilingualRAGConfig \<Rightarrow> string \<Rightarrow> string \<Rightarrow> string \<Rightarrow> error + Document list"
where
  "create_simple_chunks cfg text fname u =
     (case get_processing_settings cfg of
        Inl e \<Rightarrow> Inl e
      | Inr ps \<Rightarrow>
          (let csize = dict_get (chunk_size ps) 1000;
               overlap = dict_get (chunk_overlap ps) 100;
               words = py_split text
           in if csize - overlap = 0 then Inl (ValueError ''range() arg 3 must not be zero'')
              else if csize - overlap < 0 then Inr []
              else Inr (simple_chunks_loop csize (nat (csize - overlap))
                          (dict_get (min_chunk_size ps) 50) fname u words 0 [])))"

text \<open>
  The chunker as the specification words it, to compare with the loop: the windows of
  \<open>csize\<close> tokens that start at the multiples of \<open>step\<close> below the number of tokens,
  rendered by joining with one space, and of these the ones that reach the minimum length.
\<close>

definition spec_windows :: "nat \<Rightarrow> nat \<Rightarrow> string list \<Rightarrow> string list" where
  "spec_windows csize step words =
     map (\<lambda>k. py_join '' '' (take csize (drop (k * step) words)))
       [0 ..< (length words + step - 1) div step]"

definition spec_chunk_texts :: "nat \<Rightarrow> nat \<Rightarrow> int \<Rightarrow> string list \<Rightarrow> string list" where
  "spec_chunk_texts csize step mn words =
     filter (\<lambda>t. mn \<le> int (length t)) (spec_windows csize step words)"

section \<open>The collaborators of the pipeline\<close>

text \<open>
  The pipeline object: its configuration and the services and libraries it calls, each a
  function that returns the value or the exception the call ends with.
  \<^item> \<open>FILE_FORMAT_DICT\<close> is the table of \<open>data_utils\<close>; \<open>path_str\<close>, \<open>path_suffix\<close>
    and \<open>path_name\<close> are \<open>str(Path(p))\<close>, \<open>Path(p).suffix\<close> and \<open>Path(p).name\<close>;
    \<open>uuid4 p n\<close> is the n-th identifier drawn while the document \<open>p\<close> is processed.
  \<^item> \<open>pdfplumber_pages\<close> opens a pdf and gives what \<open>extract_text()\<close> returns for each
    page, or the exception the fast path ends with; \<open>begin_analyze_document bytes n\<close> is
    the \<open>content\<close> of the result of the n-th analysis request made for the document, or
    the exception of the request or of its poller.
  \<^item> \<open>bs4_get_text\<close> is \<open>None\<close> when \<open>bs4\<close> cannot be imported.
  \<^item> \<open>container_client\<close> and \<open>search_client\<close> are \<open>None\<close> when the Azure libraries are
    not installed; \<open>upload_documents\<close> gives the \<open>succeeded\<close> flag of every indexing result.
  \<^item> \<open>chunk_content\<close> is the chunker of \<open>data_utils\<close>, with the arguments content, file
    name, url, number of tokens, minimal chunk size, token overlap and embedding endpoint.
\<close>

type_synonym stats = "(string \<times> string) list"

record container =
  container_url :: string
  upload_blob :: "string \<Rightarrow> string \<Rightarrow> error option"

record search_document =
  sd_action :: string
  sd_id :: string
  sd_content :: string
  sd_title :: string
  sd_filepath :: string
  sd_url :: string
  sd_contentVector :: "int list option"

record pipeline =
  config :: MultilingualRAGConfig
  FILE_FORMAT_DICT :: "string \<rightharpoonup> string"
  path_str :: "string \<Rightarrow> string"
  path_suffix :: "string \<Rightarrow> string"
  path_name :: "string \<Rightarrow> string"
  uuid4 :: "string \<Rightarrow> nat \<Rightarrow> string"
  open_rb :: "string \<Rightarrow> error + string"
  read_text_file :: "string \<Rightarrow> error + string"
  PDF_LIBS_AVAILABLE :: bool
  pdfplumber_pages :: "string \<Rightarrow> error + string option list"
  doc_intelligence_client :: bool
  begin_analyze_document :: "string \<Rightarrow> nat \<Rightarrow> error + string option"
  bs4_get_text :: "(string \<Rightarrow> error + string) option"
  detect_language :: "string \<Rightarrow> error + string"
  translate_text :: "string \<Rightarrow> string \<Rightarrow> error + string \<times> stats"
  container_client :: "container option"
  search_client :: "(search_document list \<Rightarrow> error + bool list) option"
  DefaultAzureCredential :: "error option"
  chunk_content ::
    "string \<Rightarrow> string \<Rightarrow> string \<Rightarrow> int \<Rightarrow> int \<Rightarrow> int \<Rightarrow> string \<Rightarrow> error + Document list"

section \<open>DocumentProcessor\<close>

text \<open>
  Every extraction function takes the number of analysis requests made so far for the
  document and returns it with its result, so that the requests can be counted.
\<close>

definition extract_with_document_intelligence ::
  "pipeline \<Rightarrow> string \<Rightarrow> nat \<Rightarrow> (error + string) \<times> nat"
where
  "extract_with_document_intelligence p file_path n =
     (if \<not> doc_intelligence_client p
      then (Inl (PyException ''Document Intelligence client not available''), n)
      else
        (case open_rb p file_path of
           Inl e \<Rightarrow> (Inl e, n)
         | Inr f \<Rightarrow>
             (case begin_analyze_document p f n of
                Inl e \<Rightarrow> (Inl e, Suc n)
              | Inr None \<Rightarrow> (Inl (PyException ''No text extracted by Document Intelligence''), Suc n)
              | Inr (Some c) \<Rightarrow>
                  (if c \<noteq> [] then (Inr c, Suc n)
                   else (Inl (PyException ''No text extracted by Document Intelligence''), Suc n)))))"

text \<open>
  In \<open>_extract_from_pdf\<close> the call of the analysis for a short text stands inside the
  \<open>try\<close> block, whose bare \<open>except\<close> calls the analysis again.
\<close>

definition extract_from_pdf :: "pipeline \<Rightarrow> string \<Rightarrow> nat \<Rightarrow> (error + string) \<times> nat" where
  "extract_from_pdf p pdf_path n =
     (if \<not> PDF_LIBS_AVAILABLE p then extract_with_document_intelligence p pdf_path n
      else
        (case pdfplumber_pages p pdf_path of
           Inl e \<Rightarrow> extract_with_document_intelligence p pdf_path n
         | Inr pages \<Rightarrow>
             (let text_content = concat (map (\<lambda>t. case t of None \<Rightarrow> [] | Some s \<Rightarrow> if s = [] then [] else [s]) pages);
                  text = (if text_content \<noteq> [] then py_join [CHR 0x0A] text_content else [])
              in if text = [] \<or> length (py_strip text) < 100
                 then
                   (case extract_with_document_intelligence p pdf_path n of
                      (Inl e, n') \<Rightarrow> extract_with_document_intelligence p pdf_path n'
                    | (Inr t, n') \<Rightarrow> (Inr t, n'))
                 else (Inr text, n))))"

definition extract_from_text_file :: "pipeline \<Rightarrow> string \<Rightarrow> error + string" where
  "extract_from_text_file p file_path = read_text_file p file_path"

definition extract_from_html :: "pipeline \<Rightarrow> string \<Rightarrow> error + string" where
  "extract_from_html p file_path =
     (case read_text_file p file_path of
        Inl e \<Rightarrow> Inl e
      | Inr c \<Rightarrow>
          (case bs4_get_text p of
             None \<Rightarrow> Inr c
           | Some get_text \<Rightarrow> get_text c))"

definition extract_text :: "pipeline \<Rightarrow> string \<Rightarrow> string \<Rightarrow> nat \<Rightarrow> (error + string) \<times> nat" where
  "extract_text p file_path file_format n =
     (if file_format = ''pdf'' then extract_from_pdf p file_path n
      else if file_format \<in> set [''docx'', ''pptx'']
        then extract_with_document_intelligence p file_path n
      else if file_format \<in> set [''txt'', ''md'']
        then (extract_from_text_file p file_path, n)
      else if file_format = ''html'' then (extract_from_html p file_path, n)
      else (Inl (UnsupportedFormatError (''Unsupported format: '' @ file_format)), n))"

section \<open>TranslationService\<close>

text \<open>
  The result is the tuple (detected language, final text, translated text, statistics).
  The whole body stands in one \<open>try\<close>, whose handler returns the text it was given.
\<close>

definition detect_and_translate ::
  "pipeline \<Rightarrow> string \<Rightarrow> string \<times> string \<times> string option \<times> stats option"
where
  "detect_and_translate p text =
     (case detect_language p text of
        Inl e \<Rightarrow> (''unknown'', text, None, None)
      | Inr detected_lang \<Rightarrow>
          (case get_processing_settings (config p) of
             Inl e \<Rightarrow> (''unknown'', text, None, None)
           | Inr ps \<Rightarrow>
               (let enabled = dict_get (translation_enabled ps) True;
                    force = dict_get (force_translation ps) False
                in if \<not> enabled then (detected_lang, text, None, None)
                   else if detected_lang = ''en'' \<and> \<not> force then (detected_lang, text, None, None)
                   else
                     (case translate_text p text ''en'' of
                        Inl e \<Rightarrow> (''unknown'', text, None, None)
                      | Inr (translated_text, st) \<Rightarrow>
                          (detected_lang, translated_text, Some translated_text, Some st)))))"

section \<open>BlobStorageManager\<close>

definition upload_document :: "pipeline \<Rightarrow> string \<Rightarrow> string \<Rightarrow> error + string" where
  "upload_document p uuid file_path =
     (case container_client p of
        None \<Rightarrow> Inl (PyException ''Blob storage client not available'')
      | Some cc \<Rightarrow>
          (let blob_name = ''documents/'' @ uuid @ ''-'' @ path_name p file_path
           in case open_rb p file_path of
                Inl e \<Rightarrow> Inl e
              | Inr data \<Rightarrow>
                  (case upload_blob cc blob_name data of
                     Some e \<Rightarrow> Inl e
                   | None \<Rightarrow> Inr (container_url cc @ ''/'' @ blob_name))))"

definition upload_translated_content ::
  "pipeline \<Rightarrow> string \<Rightarrow> string \<Rightarrow> string \<Rightarrow> string \<Rightarrow> error + string"
where
  "upload_translated_content p uuid text original_filename detected_language =
     (case container_client p of
        None \<Rightarrow> Inl (PyException ''Blob storage client not available'')
      | Some cc \<Rightarrow>
          (let blob_name = ''translated/'' @ detected_language @ ''-to-en/'' @ uuid @ ''-''
                             @ original_filename @ ''.txt''
           in case upload_blob cc blob_name text of
                Some e \<Rightarrow> Inl e
              | None \<Rightarrow> Inr (container_url cc @ ''/'' @ blob_name)))"

section \<open>SearchIndexManager\<close>

definition truthy :: "'a list option \<Rightarrow> bool" where
  "truthy v = (case v of None \<Rightarrow> False | Some x \<Rightarrow> x \<noteq> [])"

definition doc_dict :: "string \<Rightarrow> Document \<Rightarrow> search_document" where
  "doc_dict uuid chunk =
     \<lparr>sd_action = ''upload'',
      sd_id = uuid,
      sd_content = content chunk,
      sd_title = (if truthy (title chunk) then the (title chunk) else ''Untitled''),
      sd_filepath = (if truthy (metadata chunk)
                     then dict_get (map_of (the (metadata chunk)) ''filepath'') [] else []),
      sd_url = (if truthy (url chunk) then the (url chunk) else []),
      sd_contentVector = (if truthy (contentVector chunk) then contentVector chunk else None)\<rparr>"

definition index_chunks :: "pipeline \<Rightarrow> (nat \<Rightarrow> string) \<Rightarrow> Document list \<Rightarrow> nat" where
  "index_chunks p uuids chunks =
     (case search_client p of
        None \<Rightarrow> 0
      | Some upload_documents \<Rightarrow>
          (if chunks = [] then 0
           else
             (let documents_to_upload = map (\<lambda>(i, chunk). doc_dict (uuids i) chunk) (enumerate 0 chunks)
              in case upload_documents documents_to_upload of
                   Inl e \<Rightarrow> 0
                 | Inr results \<Rightarrow> length (filter (\<lambda>succeeded. succeeded) results))))"

section \<open>MultilingualRAGPipeline: one document\<close>

text \<open>
  The result of one document. The wall-clock field \<open>processing_time\<close> is left out: it
  is a difference of two readings of the clock, and no function of the pipeline reads it.
\<close>

record DocumentProcessingResult =
  success :: bool
  original_file :: string
  file_format :: string
  detected_language :: string
  translated :: bool
  blob_url :: "string option"
  chunks_count :: nat
  error_message :: "string option"
  translation_stats :: "stats option"

text \<open>
  \<open>_chunk_and_embed_content\<close>: the settings are read before the \<open>try\<close>; the
  credential, the endpoint and the call of \<open>chunk_content\<close> stand inside it, and its
  handler calls the fallback chunker.
\<close>

definition chunk_and_embed_try ::
  "pipeline \<Rightarrow> processing_settings \<Rightarrow> string \<Rightarrow> string \<Rightarrow> string \<Rightarrow> error + Document list"
where
  "chunk_and_embed_try p ps text fname u =
     (case DefaultAzureCredential p of
        Some e \<Rightarrow> Inl e
      | None \<Rightarrow>
          (case config_azure_openai (config p) of
             None \<Rightarrow> Inl (KeyError ''azure_openai'')
           | Some openai_config \<Rightarrow>
               (case openai_config ''endpoint'' of
                  None \<Rightarrow> Inl (KeyError ''endpoint'')
                | Some endpoint \<Rightarrow>
                    (case openai_config ''embedding_deployment'' of
                       None \<Rightarrow> Inl (KeyError ''embedding_deployment'')
                     | Some deployment \<Rightarrow>
                         chunk_content p text fname u
                           (dict_get (chunk_size ps) 1000)
                           (dict_get (min_chunk_size ps) 50)
                           (dict_get (chunk_overlap ps) 100)
                           (endpoint @ ''/openai/deployments/'' @ deployment
                              @ ''/embeddings?api-version=2023-12-01-preview'')))))"

definition chunk_and_embed_content ::
  "pipeline \<Rightarrow> string \<Rightarrow> string \<Rightarrow> string \<Rightarrow> string \<Rightarrow> error + Document list"
where
  "chunk_and_embed_content p text fname u fmt =
     (case get_processing_settings (config p) of
        Inl e \<Rightarrow> Inl e
      | Inr ps \<Rightarrow>
          (case chunk_and_embed_try p ps text fname u of
             Inl e \<Rightarrow> create_simple_chunks (config p) text fname u
           | Inr chunks \<Rightarrow> Inr chunks))"

text \<open>The extension of a path: \<open>file_path.suffix.lower().lstrip('.')\<close>.\<close>

definition lower_char :: "char \<Rightarrow> char" where
  "lower_char c = (let n = (of_char c :: nat) in
     if (65 \<le> n \<and> n \<le> 90) \<or> (192 \<le> n \<and> n \<le> 222 \<and> n \<noteq> 215) then char_of (n + 32) else c)"

definition file_format_of :: "pipeline \<Rightarrow> string \<Rightarrow> string" where
  "file_format_of p file_path =
     (let file_extension = dropWhile (\<lambda>c. c = CHR ''.'') (map lower_char (path_suffix p file_path))
      in dict_get (FILE_FORMAT_DICT p file_extension) file_extension)"

text \<open>
  The \<open>try\<close> block of \<open>_process_single_document\<close>, after the format is determined:
  the stages in their order, each one ending the block with its exception.
\<close>

definition process_stages :: "pipeline \<Rightarrow> string \<Rightarrow> string \<Rightarrow> error + DocumentProcessingResult" where
  "process_stages p file_path fmt =
     (case get_processing_settings (config p) of
        Inl e \<Rightarrow> Inl e
      | Inr ps \<Rightarrow>
     if fmt \<notin> set (dict_get (supported_formats ps) [])
     then Inl (UnsupportedFormatError (''Unsupported format: '' @ fmt))
     else
     (case upload_document p (uuid4 p file_path 0) (path_str p file_path) of
        Inl e \<Rightarrow> Inl e
      | Inr blob \<Rightarrow>
     (case fst (extract_text p (path_str p file_path) fmt 0) of
        Inl e \<Rightarrow> Inl e
      | Inr text_content \<Rightarrow>
     if text_content = [] \<or> length (py_strip text_content) < 50
     then Inl (PyException ''Insufficient text content extracted'')
     else
     (case detect_and_translate p text_content of
        (detected_lang, final_text, translated_text, st) \<Rightarrow>
     (case (if translated_text \<noteq> None
            then upload_translated_content p (uuid4 p file_path 1) final_text
                   (path_name p file_path) detected_lang
            else Inr []) of
        Inl e \<Rightarrow> Inl e
      | Inr _ \<Rightarrow>
     (case chunk_and_embed_content p final_text (path_name p file_path) blob fmt of
        Inl e \<Rightarrow> Inl e
      | Inr chunks \<Rightarrow>
          Inr \<lparr>success = True,
               original_file = path_str p file_path,
               file_format = fmt,
               detected_language = detected_lang,
               translated = (translated_text \<noteq> None),
               blob_url = Some blob,
               chunks_count = index_chunks p (\<lambda>i. uuid4 p file_path (2 + i)) chunks,
               error_message = None,
               translation_stats = st\<rparr>))))))"

definition failed_result :: "string \<Rightarrow> string \<Rightarrow> error \<Rightarrow> DocumentProcessingResult" where
  "failed_result file fmt e =
     \<lparr>success = False,
      original_file = file,
      file_format = fmt,
      detected_language = ''unknown'',
      translated = False,
      blob_url = None,
      chunks_count = 0,
      error_message = Some (str_of e),
      translation_stats = None\<rparr>"

text \<open>
  \<open>_process_single_document\<close>: the handler \<open>except Exception\<close> around the stages. The
  format is assigned by the first statements of the block, which raise nothing, so the
  handler always finds it among the local variables.
\<close>

definition process_single_document :: "pipeline \<Rightarrow> string \<Rightarrow> DocumentProcessingResult" where
  "process_single_document p file_path =
     (let fmt = file_format_of p file_path
      in case process_stages p file_path fmt of
           Inl e \<Rightarrow> failed_result (path_str p file_path) fmt e
         | Inr r \<Rightarrow> r)"

section \<open>MultilingualRAGPipeline: the run\<close>

record PipelineResult =
  success :: bool
  total_files :: nat
  processed_files :: nat
  failed_files :: nat
  translated_files :: nat
  total_chunks :: nat
  results :: "DocumentProcessingResult list"
  error_message :: "string option"

text \<open>
  \<open>as_completed\<close> yields the futures in the order they finish. The order is not fixed
  by the program: the schedule \<open>sched\<close> chooses, at every step, which of the pending
  futures finishes next.
\<close>

function as_completed :: "nat list \<Rightarrow> 'a list \<Rightarrow> 'a list" where
  "as_completed sched pending =
     (if pending = [] then []
      else
        (let k = (case sched of [] \<Rightarrow> 0 | s # _ \<Rightarrow> s mod length pending)
         in pending ! k # as_completed (tl sched) (take k pending @ drop (Suc k) pending)))"
  by pat_completeness auto
termination
proof (relation "measure (\<lambda>(sched, pending). length pending)")
  show "wf (measure (\<lambda>(sched, pending). length pending))"
    by simp
next
  fix sched :: "nat list" and pending :: "'a list" and k :: nat
  assume ne: "pending \<noteq> []"
    and k: "k = (case sched of [] \<Rightarrow> 0 | s # _ \<Rightarrow> s mod length pending)"
  from ne have "0 < length pending"
    by simp
  with k have "k < length pending"
    by (cases sched) simp_all
  then show "((tl sched, take k pending @ drop (Suc k) pending), (sched, pending))
      \<in> measure (\<lambda>(sched, pending). length pending)"
    by simp
qed

declare as_completed.simps [simp del]

text \<open>
  The loop that collects the results: \<open>future.result()\<close> gives the result of the
  worker or raises what the worker raised, and then the handler records a failed document.
\<close>

fun collect_results ::
  "(string \<times> (error + DocumentProcessingResult)) list \<Rightarrow> DocumentProcessingResult list \<Rightarrow> nat
     \<Rightarrow> DocumentProcessingResult list \<times> nat"
where
  "collect_results [] rs chunks = (rs, chunks)"
| "collect_results ((file_path, Inr r) # futures) rs chunks =
     collect_results futures (rs @ [r]) (chunks + chunks_count r)"
| "collect_results ((file_path, Inl e) # futures) rs chunks =
     collect_results futures (rs @ [failed_result file_path ''unknown'' e]) chunks"

text \<open>
  \<open>_print_pipeline_summary\<close> prints; what is left of it here is the exception it can
  end with, a division by zero in the success rate or in the translation rate.
\<close>

definition print_pipeline_summary :: "PipelineResult \<Rightarrow> error option" where
  "print_pipeline_summary r =
     (if total_files r = 0 then Some (ZeroDivisionError ''division by zero'')
      else if 0 < translated_files r \<and> processed_files r = 0
        then Some (ZeroDivisionError ''division by zero'')
      else None)"

text \<open>
  \<open>ingest_documents\<close>. The worker pool refuses a size that is not positive. Each
  submitted future holds what \<open>_process_single_document\<close> returns for its path.
\<close>

definition ingest_documents :: "pipeline \<Rightarrow> nat list \<Rightarrow> string list \<Rightarrow> error + PipelineResult" where
  "ingest_documents p sched file_paths =
     (case get_processing_settings (config p) of
        Inl e \<Rightarrow> Inl e
      | Inr ps \<Rightarrow>
          (if dict_get (max_concurrent_files ps) 5 \<le> 0
           then Inl (ValueError ''max_workers must be greater than 0'')
           else
             (let future_to_file =
                    map (\<lambda>file_path. (file_path, Inr (process_single_document p file_path))) file_paths;
                  (rs, chunks) = collect_results (as_completed sched future_to_file) [] 0;
                  processed = length (filter DocumentProcessingResult.success rs);
                  failed = length rs - processed;
                  translated_count = length (filter translated rs);
                  pipeline_result =
                    \<lparr>success = (failed = 0),
                     total_files = length file_paths,
                     processed_files = processed,
                     failed_files = failed,
                     translated_files = translated_count,
                     total_chunks = chunks,
                     results = rs,
                     error_message = None\<rparr>
              in case print_pipeline_summary pipeline_result of
                   Some e \<Rightarrow> Inl e
                 | None \<Rightarrow> Inr pipeline_result)))"

section \<open>A small pipeline to run the definitions on\<close>

definition example_settings :: processing_settings where
  "example_settings =
     \<lparr>chunk_size = Some 3, chunk_overlap = Some 1, min_chunk_size = Some 3,
      max_concurrent_files = Some 2, translation_enabled = Some True,
      force_translation = None, supported_formats = Some [''txt'', ''pdf'']\<rparr>"

definition example_config :: MultilingualRAGConfig where
  "example_config =
     \<lparr>config_processing_settings = Some example_settings, config_azure_openai = None\<rparr>"

definition example_text :: string where
  "example_text = ''le chat dort sur le canape pendant que la pluie tombe dehors''"

definition example_translation :: string where
  "example_translation = ''the cat sleeps on the couch while the rain is falling outside''"

definition example_chunks :: "Document list" where
  "example_chunks =
     [new_document ''the cat sleeps on the couch'' ''a.txt (chunk 1)'' ''https://blob/a.txt'',
      new_document ''while the rain is falling outside'' ''a.txt (chunk 2)'' ''https://blob/a.txt'']"

text \<open>
  Every service answers: the text files hold a French sentence, except \<open>empty.txt\<close>,
  which holds nothing; the translator returns its English translation; the pdf files
  have a text layer of ten characters; the first analysis request of a document times
  out and the second one succeeds; storage and index accept everything.
\<close>

definition example_pipeline :: pipeline where
  "example_pipeline =
     \<lparr>config = example_config\<lparr>config_azure_openai :=
                 Some [''endpoint'' \<mapsto> ''https://openai'', ''embedding_deployment'' \<mapsto> ''ada'']\<rparr>,
      FILE_FORMAT_DICT = Map.empty,
      path_str = (\<lambda>s. s),
      path_suffix = (\<lambda>s. drop (length s - 4) s),
      path_name = (\<lambda>s. s),
      uuid4 = (\<lambda>s n. ''0000''),
      open_rb = (\<lambda>s. Inr ''bytes''),
      read_text_file = (\<lambda>s. if s = ''empty.txt'' then Inr [] else Inr example_text),
      PDF_LIBS_AVAILABLE = True,
      pdfplumber_pages = (\<lambda>s. Inr [Some ''short text'']),
      doc_intelligence_client = True,
      begin_analyze_document =
        (\<lambda>f n. if n = 0 then Inl (Error ''HttpResponseError'' ''request timed out'')
               else Inr (Some example_text)),
      bs4_get_text = None,
      detect_language = (\<lambda>t. Inr ''fr''),
      translate_text = (\<lambda>t lang. Inr (example_translation, [(''characters'', ''59'')])),
      container_client = Some \<lparr>container_url = ''https://blob'', upload_blob = (\<lambda>name data. None)\<rparr>,
      search_client = Some (\<lambda>docs. Inr (map (\<lambda>d. True) docs)),
      DefaultAzureCredential = None,
      chunk_content = (\<lambda>text fname u tokens mn overlap endpoint. Inr example_chunks)\<rparr>"

definition example_pipeline_translation_off :: pipeline where
  "example_pipeline_translation_off =
     example_pipeline\<lparr>config :=
       \<lparr>config_processing_settings = Some (example_settings\<lparr>translation_enabled := Some False\<rparr>),
        config_azure_openai = config_azure_openai (config example_pipeline)\<rparr>\<rparr>"

definition example_pipeline_translator_down :: pipeline where
  "example_pipeline_translator_down =
     example_pipeline\<lparr>translate_text :=
       (\<lambda>t lang. Inl (Error ''HTTPError'' ''503 Service Unavailable''))\<rparr>"

definition example_pipeline_english :: pipeline where
  "example_pipeline_english = example_pipeline\<lparr>detect_language := (\<lambda>t. Inr ''en'')\<rparr>"



definition example_pipeline_translated_upload_fails :: pipeline where
  "example_pipeline_translated_upload_fails =
     example_pipeline\<lparr>container_client :=
       Some \<lparr>container_url = ''https://blob'',
             upload_blob = (\<lambda>name data. if take 11 name = ''translated/''
               then Some (Error ''ServiceRequestError'' ''storage unavailable'') else None)\<rparr>\<rparr>"

definition example_pipeline_no_storage :: pipeline where
  "example_pipeline_no_storage = example_pipeline\<lparr>container_client := None\<rparr>"


definition example_pipeline_unreadable :: pipeline where
  "example_pipeline_unreadable =
     example_pipeline\<lparr>read_text_file :=
       (\<lambda>s. if s = ''missing.txt''
            then Inl (Error ''FileNotFoundError'' ''No such file or directory'')
            else Inr example_text)\<rparr>"

definition example_pipeline_zero_step :: pipeline where
  "example_pipeline_zero_step =
     example_pipeline\<lparr>config :=
         \<lparr>config_processing_settings = Some (example_settings\<lparr>chunk_overlap := Some 3\<rparr>),
          config_azure_openai = None\<rparr>\<rparr>"
definition example_pipeline_no_settings :: pipeline where
  "example_pipeline_no_settings =
     example_pipeline\<lparr>config :=
       \<lparr>config_processing_settings = None, config_azure_openai = None\<rparr>\<rparr>"

section \<open>The fallback chunker slides a window\<close>

lemma py_slice_window:
  "0 \<le> csize \<Longrightarrow> py_slice xs (int i) (int i + csize) = take (nat csize) (drop i xs)"
proof -
  assume c: "0 \<le> csize"
  obtain m where m: "csize = int m" using c by (metis nat_0_le)
  have "nat (min (int i + int m) (int (length xs)) - min (int i) (int (length xs))) = min m (length xs - i)"
    by (simp add: min_def) linarith
  moreover have "nat (min (int i) (int (length xs))) = min i (length xs)"
    by (simp add: min_def)
  ultimately show ?thesis
    using m by (cases "i \<le> length xs") (simp_all add: py_slice_def Let_def min_def)
qed

lemma window_index_bound:
  "0 < step \<Longrightarrow> k < (n + step - 1) div step \<longleftrightarrow> k * step < (n::nat)"
proof -
  assume s: "0 < step"
  have "k < (n + step - 1) div step \<longleftrightarrow> Suc k \<le> (n + step - 1) div step"
    by auto
  also have "\<dots> \<longleftrightarrow> Suc k * step \<le> n + step - 1"
    using s by (simp add: less_eq_div_iff_mult_less_eq)
  also have "\<dots> \<longleftrightarrow> k * step < n"
    using s by (cases n) auto
  finally show ?thesis .
qed

lemma simple_chunks_loop_contents:
  "0 < step \<Longrightarrow> 0 \<le> csize \<Longrightarrow>
   map content (simple_chunks_loop csize step mn fname u words (k * step) chunks) =
     map content chunks @
     filter (\<lambda>t. mn \<le> int (length (py_strip t)))
       (map (\<lambda>j. py_join '' '' (take (nat csize) (drop (j * step) words)))
          [k ..< (length words + step - 1) div step])"
proof (induction "(length words + step - 1) div step - k" arbitrary: k chunks)
  case 0
  then have "\<not> k < (length words + step - 1) div step" by simp
  then have "length words \<le> k * step"
    using 0(2) window_index_bound [of step k "length words"] by simp
  then show ?case using 0 by (simp add: simple_chunks_loop.simps)
next
  case (Suc d)
  let ?i = "k * step"
  let ?t = "py_join '' '' (take (nat csize) (drop ?i words))"
  let ?next = "if mn \<le> int (length (py_strip ?t))
               then chunks @ [new_document ?t (fname @ '' (chunk '' @ str_nat (length chunks + 1) @ '')'') u]
               else chunks"
  from Suc have lt: "k < (length words + step - 1) div step" by simp
  then have i: "?i < length words"
    using Suc.prems(1) window_index_bound [of step k "length words"] by simp
  have d: "d = (length words + step - 1) div step - Suc k" using Suc by simp
  have unfold: "simple_chunks_loop csize step mn fname u words ?i chunks =
      simple_chunks_loop csize step mn fname u words (Suc k * step) ?next"
    using i Suc.prems py_slice_window [of csize words ?i]
    by (subst simple_chunks_loop.simps) (simp add: Let_def add.commute del: of_nat_mult)
  have ih: "map content (simple_chunks_loop csize step mn fname u words (Suc k * step) ?next) =
      map content ?next @
      filter (\<lambda>t. mn \<le> int (length (py_strip t)))
        (map (\<lambda>j. py_join '' '' (take (nat csize) (drop (j * step) words)))
          [Suc k ..< (length words + step - 1) div step])"
    using Suc.hyps(1) [OF d Suc.prems] .
  have upt: "[k ..< (length words + step - 1) div step] = k # [Suc k ..< (length words + step - 1) div step]"
    using lt by (simp add: upt_conv_Cons)
  show ?case
    unfolding unfold ih upt by (simp add: new_document_def)
qed

lemma py_split_scan_words:
  "\<forall>c \<in> set w. \<not> py_isspace c \<Longrightarrow>
   \<forall>x \<in> set (py_split_scan w s). x \<noteq> [] \<and> (\<forall>c \<in> set x. \<not> py_isspace c)"
proof (induction s arbitrary: w)
  case Nil
  then show ?case by simp
next
  case (Cons a s)
  have e: "\<forall>x \<in> set (py_split_scan [] s). x \<noteq> [] \<and> (\<forall>c \<in> set x. \<not> py_isspace c)"
    using Cons.IH [of "[]"] by simp
  show ?case
  proof (cases "py_isspace a")
    case True
    then show ?thesis using e Cons.prems by simp
  next
    case False
    then have "\<forall>c \<in> set (w @ [a]). \<not> py_isspace c"
      using Cons.prems by simp
    from Cons.IH [OF this] show ?thesis using False by simp
  qed
qed

lemma py_split_words:
  "x \<in> set (py_split s) \<Longrightarrow> x \<noteq> [] \<and> (\<forall>c \<in> set x. \<not> py_isspace c)"
  unfolding py_split_def using py_split_scan_words [of "[]" s] by simp

lemma length_py_join:
  "length (py_join sep ws) = sum_list (map length ws) + (length ws - 1) * length sep"
  by (induction sep ws rule: py_join.induct) simp_all

lemma py_split_scan_length:
  "sum_list (map length (py_split_scan w s)) + (length (py_split_scan w s) - 1) \<le> length w + length s"
proof (induction s arbitrary: w)
  case Nil
  then show ?case by simp
next
  case (Cons c cs)
  show ?case
    using Cons [of "[]"] Cons [of "w @ [c]"] by (auto split: if_splits)
qed

lemma sum_list_take_le: "sum_list (map f (take n xs)) \<le> sum_list (map f xs :: nat list)"
  by (metis append_take_drop_id le_add1 map_append sum_list_append)

lemma sum_list_drop_le: "sum_list (map f (drop n xs)) \<le> sum_list (map f xs :: nat list)"
  by (metis append_take_drop_id le_add2 map_append sum_list_append)

lemma window_length_le:
  "length (py_join '' '' (take n (drop i (py_split s)))) \<le> length s"
proof -
  let ?ws = "py_split s" and ?v = "take n (drop i (py_split s))"
  have "sum_list (map length ?v) \<le> sum_list (map length (drop i ?ws))"
    by (rule sum_list_take_le)
  also have "\<dots> \<le> sum_list (map length ?ws)"
    by (rule sum_list_drop_le)
  finally have a: "sum_list (map length ?v) \<le> sum_list (map length ?ws)" .
  have b: "length ?v - 1 \<le> length ?ws - 1"
    by simp
  have "length (py_join '' '' ?v) = sum_list (map length ?v) + (length ?v - 1)"
    by (simp add: length_py_join)
  also have "\<dots> \<le> sum_list (map length ?ws) + (length ?ws - 1)"
    using a b by (rule add_mono)
  also have "\<dots> \<le> length s"
    using py_split_scan_length [of "[]" s] by (simp add: py_split_def)
  finally show ?thesis .
qed

lemma py_join_ends:
  "ws \<noteq> [] \<Longrightarrow> \<forall>x \<in> set ws. x \<noteq> [] \<and> (\<forall>c \<in> set x. \<not> py_isspace c) \<Longrightarrow>
   py_join sep ws \<noteq> [] \<and> \<not> py_isspace (hd (py_join sep ws)) \<and> \<not> py_isspace (last (py_join sep ws))"
proof (induction sep ws rule: py_join.induct)
  case (1 sep)
  then show ?case by simp
next
  case (2 sep w)
  then show ?case by (cases w) (auto simp: last_in_set)
next
  case (3 sep w v ws)
  then have ih: "py_join sep (v # ws) \<noteq> []" "\<not> py_isspace (last (py_join sep (v # ws)))"
    by simp_all
  from 3 have w: "w \<noteq> []" "\<not> py_isspace (hd w)"
    by (cases w; simp)+
  show ?case using ih w by simp
qed

lemma py_strip_unchanged:
  "s \<noteq> [] \<Longrightarrow> \<not> py_isspace (hd s) \<Longrightarrow> \<not> py_isspace (last s) \<Longrightarrow> py_strip s = s"
proof -
  assume s: "s \<noteq> []" and h: "\<not> py_isspace (hd s)" and l: "\<not> py_isspace (last s)"
  from s h have "dropWhile py_isspace s = s"
    by (cases s) simp_all
  moreover from s l have "dropWhile py_isspace (rev s) = rev s"
    by (cases "rev s") (simp_all add: last_rev [symmetric] hd_rev)
  ultimately show ?thesis
    by (simp add: py_strip_def)
qed

lemma py_strip_window:
  "py_strip (py_join '' '' (take n (drop i (py_split s)))) = py_join '' '' (take n (drop i (py_split s)))"
proof (cases "take n (drop i (py_split s)) = []")
  case True
  show ?thesis unfolding True by (simp add: py_strip_def)
next
  case False
  have "\<forall>x \<in> set (take n (drop i (py_split s))). x \<noteq> [] \<and> (\<forall>c \<in> set x. \<not> py_isspace c)"
    using py_split_words by (meson in_set_dropD in_set_takeD)
  from py_join_ends [OF False this] show ?thesis
    by (simp add: py_strip_unchanged)
qed

text \<open>
  C4. With \<open>0 < overlap < chunk_size\<close> and \<open>min_chunk_size \<le> chunk_size\<close> the
  fallback chunker returns, and never raises: its chunks are the windows of
  \<open>chunk_size\<close> tokens taken every \<open>chunk_size - overlap\<close> tokens, rendered with one
  space between the tokens, without the windows shorter than \<open>min_chunk_size\<close>
  characters. Every chunk has at least \<open>min_chunk_size\<close> characters, and a text that
  is empty or shorter than \<open>min_chunk_size\<close> gives no chunk.
\<close>

theorem create_simple_chunks_sliding_window:
  assumes "config_processing_settings cfg = Some ps"
    and "csize = dict_get (chunk_size ps) 1000"
    and "overlap = dict_get (chunk_overlap ps) 100"
    and "mn = dict_get (min_chunk_size ps) 50"
    and "0 < overlap" and "overlap < csize" and "mn \<le> csize"
  shows "\<exists>chunks. create_simple_chunks cfg text fname u = Inr chunks
     \<and> map content chunks = spec_chunk_texts (nat csize) (nat (csize - overlap)) mn (py_split text)
     \<and> (\<forall>c \<in> set chunks. mn \<le> int (length (content c)))
     \<and> (text = [] \<or> int (length text) < mn \<longrightarrow> chunks = [])"
proof -
  let ?step = "nat (csize - overlap)"
  let ?chunks = "simple_chunks_loop csize ?step mn fname u (py_split text) 0 []"
  have step: "0 < ?step" and cs: "0 \<le> csize"
    using assms by simp_all
  have run: "create_simple_chunks cfg text fname u = Inr ?chunks"
    using assms by (simp add: create_simple_chunks_def get_processing_settings_def Let_def)
  have "map content ?chunks =
      filter (\<lambda>t. mn \<le> int (length (py_strip t)))
        (map (\<lambda>j. py_join '' '' (take (nat csize) (drop (j * ?step) (py_split text))))
           [0 ..< (length (py_split text) + ?step - 1) div ?step])"
    using simple_chunks_loop_contents [OF step cs, of mn fname u "py_split text" 0 "[]"] by simp
  also have "\<dots> = spec_chunk_texts (nat csize) ?step mn (py_split text)"
    unfolding spec_chunk_texts_def spec_windows_def filter_map
    by (simp add: comp_def py_strip_window)
  finally have texts: "map content ?chunks = spec_chunk_texts (nat csize) ?step mn (py_split text)" .
  have mem: "set (map content ?chunks) \<subseteq> {t. mn \<le> int (length t)}"
    unfolding texts spec_chunk_texts_def by auto
  have long: "\<forall>c \<in> set ?chunks. mn \<le> int (length (content c))"
    using mem by auto
  have short: "\<forall>t \<in> set (spec_windows (nat csize) ?step (py_split text)). length t \<le> length text"
    by (auto simp: spec_windows_def window_length_le)
  have "text = [] \<or> int (length text) < mn \<longrightarrow> map content ?chunks = []"
  proof
    assume "text = [] \<or> int (length text) < mn"
    then show "map content ?chunks = []"
    proof
      assume "text = []"
      then show ?thesis
        using step unfolding texts spec_chunk_texts_def spec_windows_def
        by (simp add: py_split_def)
    next
      assume "int (length text) < mn"
      then have "\<forall>t \<in> set (spec_windows (nat csize) ?step (py_split text)). \<not> mn \<le> int (length t)"
        using short by fastforce
      then show ?thesis
        unfolding texts spec_chunk_texts_def by (simp add: filter_empty_conv)
    qed
  qed
  then have empty: "text = [] \<or> int (length text) < mn \<longrightarrow> ?chunks = []"
    by simp
  show ?thesis
    using run texts long empty by blast
qed

theorem create_simple_chunks_sliding_window_witness:
  "config_processing_settings example_config = Some example_settings
   \<and> (0::int) < 1 \<and> (1::int) < 3 \<and> (3::int) \<le> 3
   \<and> (\<exists>chunks. create_simple_chunks example_config ''aa bb  cc dd e'' ''f.txt'' ''u'' = Inr chunks
        \<and> map content chunks = [''aa bb cc'', ''cc dd e''])"
proof -
  have ps: "config_processing_settings example_config = Some example_settings"
    by (simp add: example_config_def)
  have w: "py_split ''aa bb  cc dd e'' = [''aa'', ''bb'', ''cc'', ''dd'', ''e'']"
    by (simp add: py_split_def py_isspace_def)
  have t: "spec_chunk_texts 3 2 3 [''aa'', ''bb'', ''cc'', ''dd'', ''e''] = [''aa bb cc'', ''cc dd e'']"
    by code_simp
  have c: "(3::int) = dict_get (chunk_size example_settings) 1000"
    and ov: "(1::int) = dict_get (chunk_overlap example_settings) 100"
    and mn: "(3::int) = dict_get (min_chunk_size example_settings) 50"
    by (simp_all add: example_settings_def dict_get_def)
  have s: "nat 3 = 3" "nat (3 - 1) = 2"
    by simp_all
  obtain chunks where
    "create_simple_chunks example_config ''aa bb  cc dd e'' ''f.txt'' ''u'' = Inr chunks"
    "map content chunks = spec_chunk_texts (nat 3) (nat (3 - 1)) 3 (py_split ''aa bb  cc dd e'')"
    using create_simple_chunks_sliding_window [OF ps c ov mn, of "''aa bb  cc dd e''" "''f.txt''" "''u''"]
    by auto
  then have r: "create_simple_chunks example_config ''aa bb  cc dd e'' ''f.txt'' ''u'' = Inr chunks"
    and m: "map content chunks = [''aa bb cc'', ''cc dd e'']"
    unfolding s w t by - assumption+
  have "\<exists>chunks. create_simple_chunks example_config ''aa bb  cc dd e'' ''f.txt'' ''u'' = Inr chunks
        \<and> map content chunks = [''aa bb cc'', ''cc dd e'']"
    using r m by (intro exI [of _ chunks] conjI)
  with ps show ?thesis
    by simp
qed

section \<open>The language decision\<close>

lemma detect_and_translate_untranslated:
  "detect_and_translate p text = (lang, final, None, st) \<Longrightarrow> final = text \<and> st = None"
  by (auto simp: detect_and_translate_def Let_def split: sum.splits if_splits prod.splits)

text \<open>
  When the language decision translates nothing, the stages after it run on the
  extracted text itself: it is the text that the chunker receives.
\<close>

lemma process_stages_untranslated:
  assumes "config_processing_settings (config p) = Some ps"
    and "fmt \<in> set (dict_get (supported_formats ps) [])"
    and "upload_document p (uuid4 p fp 0) (path_str p fp) = Inr blob"
    and "fst (extract_text p (path_str p fp) fmt 0) = Inr text"
    and "text \<noteq> []" and "50 \<le> length (py_strip text)"
    and "detect_and_translate p text = (lang, final, None, st)"
  shows "process_stages p fp fmt =
     (case chunk_and_embed_content p text (path_name p fp) blob fmt of
        Inl e \<Rightarrow> Inl e
      | Inr chunks \<Rightarrow>
          Inr \<lparr>DocumentProcessingResult.success = True,
               original_file = path_str p fp,
               file_format = fmt,
               detected_language = lang,
               translated = False,
               blob_url = Some blob,
               chunks_count = index_chunks p (\<lambda>i. uuid4 p fp (2 + i)) chunks,
               error_message = None,
               translation_stats = None\<rparr>)"
proof -
  from assms(7) have "final = text" "st = None"
    using detect_and_translate_untranslated by blast+
  with assms show ?thesis
    by (simp add: process_stages_def get_processing_settings_def split: sum.splits)
qed

text \<open>
  C6. With \<open>translation_enabled\<close> false, \<open>detect_and_translate\<close> returns the text it
  was given and no translated text (so \<open>translated\<close> is false), whatever the language
  detection answers or raises.
\<close>

theorem translation_disabled_keeps_text:
  assumes "config_processing_settings (config p) = Some ps"
    and "translation_enabled ps = Some False"
  shows "detect_and_translate p text =
     ((case detect_language p text of Inl e \<Rightarrow> ''unknown'' | Inr lang \<Rightarrow> lang), text, None, None)"
  using assms
  by (simp add: detect_and_translate_def get_processing_settings_def dict_get_def split: sum.splits)

theorem translation_disabled_keeps_text_witness:
  "config_processing_settings (config example_pipeline_translation_off)
     = Some (example_settings\<lparr>translation_enabled := Some False\<rparr>)
   \<and> translation_enabled (example_settings\<lparr>translation_enabled := Some False\<rparr>) = Some False
   \<and> detect_and_translate example_pipeline_translation_off example_text
       = (''fr'', example_text, None, None)"
proof -
  have c: "config_processing_settings (config example_pipeline_translation_off)
      = Some (example_settings\<lparr>translation_enabled := Some False\<rparr>)"
    by (simp add: example_pipeline_translation_off_def)
  have t: "translation_enabled (example_settings\<lparr>translation_enabled := Some False\<rparr>) = Some False"
    by simp
  have d: "detect_language example_pipeline_translation_off example_text = Inr ''fr''"
    by (simp add: example_pipeline_translation_off_def example_pipeline_def)
  show ?thesis
    using c t translation_disabled_keeps_text [OF c t, of example_text] by (simp add: d)
qed

text \<open>
  C7. When the translation is attempted and raises, \<open>detect_and_translate\<close> returns
  the language \<open>unknown\<close> with the original text and no translated text; the document is
  then chunked and indexed on its original text and its result is a success.
\<close>

theorem translation_failure_returns_original:
  assumes "detect_language p text = Inr lang"
    and "config_processing_settings (config p) = Some ps"
    and "dict_get (translation_enabled ps) True"
    and "lang \<noteq> ''en'' \<or> dict_get (force_translation ps) False"
    and "translate_text p text ''en'' = Inl e"
  shows "detect_and_translate p text = (''unknown'', text, None, None)
    \<and> (fmt \<in> set (dict_get (supported_formats ps) [])
       \<and> upload_document p (uuid4 p fp 0) (path_str p fp) = Inr blob
       \<and> fst (extract_text p (path_str p fp) fmt 0) = Inr text
       \<and> text \<noteq> [] \<and> 50 \<le> length (py_strip text)
       \<and> chunk_and_embed_content p text (path_name p fp) blob fmt = Inr chunks
       \<longrightarrow> (\<exists>r. process_stages p fp fmt = Inr r \<and> DocumentProcessingResult.success r
             \<and> detected_language r = ''unknown'' \<and> \<not> translated r
             \<and> chunks_count r = index_chunks p (\<lambda>i. uuid4 p fp (2 + i)) chunks))"
proof -
  have d: "detect_and_translate p text = (''unknown'', text, None, None)"
    using assms by (auto simp: detect_and_translate_def get_processing_settings_def)
  show ?thesis
  proof (intro conjI impI)
    show "detect_and_translate p text = (''unknown'', text, None, None)"
      by (rule d)
  next
    assume h: "fmt \<in> set (dict_get (supported_formats ps) [])
       \<and> upload_document p (uuid4 p fp 0) (path_str p fp) = Inr blob
       \<and> fst (extract_text p (path_str p fp) fmt 0) = Inr text
       \<and> text \<noteq> [] \<and> 50 \<le> length (py_strip text)
       \<and> chunk_and_embed_content p text (path_name p fp) blob fmt = Inr chunks"
    then show "\<exists>r. process_stages p fp fmt = Inr r \<and> DocumentProcessingResult.success r
             \<and> detected_language r = ''unknown'' \<and> \<not> translated r
             \<and> chunks_count r = index_chunks p (\<lambda>i. uuid4 p fp (2 + i)) chunks"
      using process_stages_untranslated [OF assms(2) _ _ _ _ _ d, of fmt fp blob] by simp
  qed
qed

theorem translation_failure_returns_original_witness:
  "detect_language example_pipeline_translator_down example_text = Inr ''fr''
   \<and> config_processing_settings (config example_pipeline_translator_down) = Some example_settings
   \<and> dict_get (translation_enabled example_settings) True
   \<and> ''fr'' \<noteq> ''en''
   \<and> translate_text example_pipeline_translator_down example_text ''en''
       = Inl (Error ''HTTPError'' ''503 Service Unavailable'')
   \<and> ''txt'' \<in> set (dict_get (supported_formats example_settings) [])
   \<and> upload_document example_pipeline_translator_down
         (uuid4 example_pipeline_translator_down ''a.txt'' 0)
         (path_str example_pipeline_translator_down ''a.txt'') = Inr ''https://blob/documents/0000-a.txt''
   \<and> fst (extract_text example_pipeline_translator_down
              (path_str example_pipeline_translator_down ''a.txt'') ''txt'' 0) = Inr example_text
   \<and> example_text \<noteq> [] \<and> 50 \<le> length (py_strip example_text)
   \<and> chunk_and_embed_content example_pipeline_translator_down example_text
         (path_name example_pipeline_translator_down ''a.txt'')
         ''https://blob/documents/0000-a.txt'' ''txt'' = Inr example_chunks
   \<and> detect_and_translate example_pipeline_translator_down example_text
       = (''unknown'', example_text, None, None)
   \<and> (\<exists>r. process_stages example_pipeline_translator_down ''a.txt'' ''txt'' = Inr r
          \<and> DocumentProcessingResult.success r \<and> detected_language r = ''unknown''
          \<and> \<not> translated r \<and> chunks_count r = 2)"
proof -
  let ?p = example_pipeline_translator_down
  have h1: "detect_language ?p example_text = Inr ''fr''"
    by code_simp
  have h2: "config_processing_settings (config ?p) = Some example_settings"
    by code_simp
  have h3: "dict_get (translation_enabled example_settings) True"
    by code_simp
  have h4: "''fr'' \<noteq> ''en'' \<or> dict_get (force_translation example_settings) False"
    by simp
  have h5: "translate_text ?p example_text ''en'' = Inl (Error ''HTTPError'' ''503 Service Unavailable'')"
    by code_simp
  have h6: "''txt'' \<in> set (dict_get (supported_formats example_settings) [])"
    by code_simp
  have h7: "upload_document ?p (uuid4 ?p ''a.txt'' 0) (path_str ?p ''a.txt'')
      = Inr ''https://blob/documents/0000-a.txt''"
    by code_simp
  have h8: "fst (extract_text ?p (path_str ?p ''a.txt'') ''txt'' 0) = Inr example_text"
    by code_simp
  have h9: "example_text \<noteq> []" "50 \<le> length (py_strip example_text)"
    by code_simp+
  have h10: "chunk_and_embed_content ?p example_text (path_name ?p ''a.txt'')
      ''https://blob/documents/0000-a.txt'' ''txt'' = Inr example_chunks"
    by code_simp
  have n: "index_chunks ?p (\<lambda>i. uuid4 ?p ''a.txt'' (2 + i)) example_chunks = 2"
    by code_simp
  note t = translation_failure_returns_original [OF h1 h2 h3 h4 h5,
      where fmt = "''txt''" and fp = "''a.txt''" and blob = "''https://blob/documents/0000-a.txt''"
        and chunks = example_chunks]
  have a: "detect_and_translate ?p example_text = (''unknown'', example_text, None, None)"
    using t by (rule conjunct1)
  have "\<exists>r. process_stages ?p ''a.txt'' ''txt'' = Inr r
          \<and> DocumentProcessingResult.success r \<and> detected_language r = ''unknown''
          \<and> \<not> translated r
          \<and> chunks_count r = index_chunks ?p (\<lambda>i. uuid4 ?p ''a.txt'' (2 + i)) example_chunks"
    by (rule mp [OF conjunct2 [OF t]]) (intro conjI h6 h7 h8 h9 h10)
  then have b: "\<exists>r. process_stages ?p ''a.txt'' ''txt'' = Inr r
          \<and> DocumentProcessingResult.success r \<and> detected_language r = ''unknown''
          \<and> \<not> translated r \<and> chunks_count r = 2"
    unfolding n .
  have h4': "''fr'' \<noteq> ''en''"
    by simp
  show ?thesis
    by (intro conjI h1 h2 h3 h4' h5 h6 h7 h8 h9 h10 a b)
qed

text \<open>
  C8. On every path of \<open>detect_and_translate\<close> that returns no translated text (the
  flag \<open>translated\<close> of the document is then false), the final text is the input text;
  and this very text is what \<open>_process_single_document\<close> gives to the chunker.
\<close>

theorem untranslated_final_text_is_input:
  assumes "detect_and_translate p text = (lang, final, tt, st)"
    and "tt = None"
  shows "final = text
    \<and> (config_processing_settings (config p) = Some ps
       \<and> fmt \<in> set (dict_get (supported_formats ps) [])
       \<and> upload_document p (uuid4 p fp 0) (path_str p fp) = Inr blob
       \<and> fst (extract_text p (path_str p fp) fmt 0) = Inr text
       \<and> text \<noteq> [] \<and> 50 \<le> length (py_strip text)
       \<longrightarrow> process_stages p fp fmt =
            (case chunk_and_embed_content p text (path_name p fp) blob fmt of
               Inl e \<Rightarrow> Inl e
             | Inr chunks \<Rightarrow>
                 Inr \<lparr>DocumentProcessingResult.success = True,
                      original_file = path_str p fp,
                      file_format = fmt,
                      detected_language = lang,
                      translated = False,
                      blob_url = Some blob,
                      chunks_count = index_chunks p (\<lambda>i. uuid4 p fp (2 + i)) chunks,
                      error_message = None,
                      translation_stats = None\<rparr>))"
proof -
  from assms have d: "detect_and_translate p text = (lang, final, None, st)"
    by simp
  then have "final = text"
    using detect_and_translate_untranslated by blast
  moreover have "config_processing_settings (config p) = Some ps
       \<and> fmt \<in> set (dict_get (supported_formats ps) [])
       \<and> upload_document p (uuid4 p fp 0) (path_str p fp) = Inr blob
       \<and> fst (extract_text p (path_str p fp) fmt 0) = Inr text
       \<and> text \<noteq> [] \<and> 50 \<le> length (py_strip text)
       \<Longrightarrow> ?thesis"
    using process_stages_untranslated [OF _ _ _ _ _ _ d, of ps fmt fp blob] calculation by simp
  ultimately show ?thesis
    by blast
qed

theorem untranslated_final_text_is_input_witness:
  "detect_and_translate example_pipeline_english example_text = (''en'', example_text, None, None)
   \<and> (None :: string option) = None
   \<and> config_processing_settings (config example_pipeline_english) = Some example_settings
   \<and> ''txt'' \<in> set (dict_get (supported_formats example_settings) [])
   \<and> upload_document example_pipeline_english (uuid4 example_pipeline_english ''a.txt'' 0)
         (path_str example_pipeline_english ''a.txt'') = Inr ''https://blob/documents/0000-a.txt''
   \<and> fst (extract_text example_pipeline_english
              (path_str example_pipeline_english ''a.txt'') ''txt'' 0) = Inr example_text
   \<and> example_text \<noteq> [] \<and> 50 \<le> length (py_strip example_text)
   \<and> process_stages example_pipeline_english ''a.txt'' ''txt'' =
        (case chunk_and_embed_content example_pipeline_english example_text
                (path_name example_pipeline_english ''a.txt'')
                ''https://blob/documents/0000-a.txt'' ''txt'' of
           Inl e \<Rightarrow> Inl e
         | Inr chunks \<Rightarrow>
             Inr \<lparr>DocumentProcessingResult.success = True,
                  original_file = path_str example_pipeline_english ''a.txt'',
                  file_format = ''txt'',
                  detected_language = ''en'',
                  translated = False,
                  blob_url = Some ''https://blob/documents/0000-a.txt'',
                  chunks_count = index_chunks example_pipeline_english
                    (\<lambda>i. uuid4 example_pipeline_english ''a.txt'' (2 + i)) chunks,
                  error_message = None,
                  translation_stats = None\<rparr>)"
proof -
  let ?p = example_pipeline_english
  have h1: "detect_and_translate ?p example_text = (''en'', example_text, None, None)"
    by code_simp
  have h2: "(None :: string option) = None"
    by simp
  have h3: "config_processing_settings (config ?p) = Some example_settings"
    by code_simp
  have h4: "''txt'' \<in> set (dict_get (supported_formats example_settings) [])"
    by code_simp
  have h5: "upload_document ?p (uuid4 ?p ''a.txt'' 0) (path_str ?p ''a.txt'')
      = Inr ''https://blob/documents/0000-a.txt''"
    by code_simp
  have h6: "fst (extract_text ?p (path_str ?p ''a.txt'') ''txt'' 0) = Inr example_text"
    by code_simp
  have h7: "example_text \<noteq> []" "50 \<le> length (py_strip example_text)"
    by code_simp+
  note t = untranslated_final_text_is_input [OF h1 h2,
      where ps = example_settings and fmt = "''txt''" and fp = "''a.txt''"
        and blob = "''https://blob/documents/0000-a.txt''"]
  show ?thesis
    apply (intro conjI h1 h2 h3 h4 h5 h6 h7)
    apply (rule mp [OF conjunct2 [OF t]])
    apply (intro conjI h3 h4 h5 h6 h7)
    done
qed

section \<open>Indexing\<close>

lemma process_stages_Inr:
  "process_stages p fp fmt = Inr r \<Longrightarrow>
   DocumentProcessingResult.success r \<and> DocumentProcessingResult.error_message r = None
   \<and> (\<exists>chunks. chunks_count r = index_chunks p (\<lambda>i. uuid4 p fp (2 + i)) chunks)"
  unfolding process_stages_def
  by (auto split: sum.splits prod.splits if_splits)








section \<open>The run: one result for every document\<close>

lemma as_completed_mset: "mset (as_completed sched pending) = mset pending"
proof (induction sched pending rule: as_completed.induct)
  case (1 sched pending)
  show ?case
  proof (cases "pending = []")
    case True
    then show ?thesis by (simp add: as_completed.simps)
  next
    case False
    define k where "k = (case sched of [] \<Rightarrow> 0 | s # _ \<Rightarrow> s mod length pending)"
    have k: "k < length pending"
      using False by (cases sched) (simp_all add: k_def)
    have "mset (as_completed (tl sched) (take k pending @ drop (Suc k) pending))
        = mset (take k pending @ drop (Suc k) pending)"
      using 1 [OF False k_def] .
    moreover have "as_completed sched pending
        = pending ! k # as_completed (tl sched) (take k pending @ drop (Suc k) pending)"
      using False by (subst as_completed.simps) (simp add: k_def Let_def)
    moreover have "mset pending = mset (take k pending @ pending ! k # drop (Suc k) pending)"
      using id_take_nth_drop [OF k] by simp
    ultimately show ?thesis by simp
  qed
qed

lemma as_completed_map: "as_completed sched (map f pending) = map f (as_completed sched pending)"
proof (induction sched pending rule: as_completed.induct)
  case (1 sched pending)
  show ?case
  proof (cases "pending = []")
    case True
    then show ?thesis by (simp add: as_completed.simps)
  next
    case False
    define k where "k = (case sched of [] \<Rightarrow> 0 | s # _ \<Rightarrow> s mod length pending)"
    have k: "k < length pending"
      using False by (cases sched) (simp_all add: k_def)
    have kmap: "(case sched of [] \<Rightarrow> 0 | s # _ \<Rightarrow> s mod length (map f pending)) = k"
      by (cases sched) (simp_all add: k_def)
    have ih: "as_completed (tl sched) (map f (take k pending @ drop (Suc k) pending))
        = map f (as_completed (tl sched) (take k pending @ drop (Suc k) pending))"
      using 1 [OF False k_def] .
    have l: "as_completed sched pending
        = pending ! k # as_completed (tl sched) (take k pending @ drop (Suc k) pending)"
      using False by (subst as_completed.simps) (simp add: k_def Let_def)
    have r: "as_completed sched (map f pending)
        = map f pending ! k # as_completed (tl sched) (take k (map f pending) @ drop (Suc k) (map f pending))"
      using False kmap by (subst as_completed.simps) (simp add: Let_def)
    show ?thesis
      unfolding l r using k ih by (simp add: take_map drop_map)
  qed
qed

lemma collect_results_futures:
  "collect_results (map (\<lambda>x. (fst x, Inr (snd x))) xs) rs chunks
     = (rs @ map snd xs, chunks + sum_list (map (\<lambda>x. chunks_count (snd x)) xs))"
  by (induction xs arbitrary: rs chunks) simp_all

lemma collect_results_workers:
  "collect_results (as_completed sched (map (\<lambda>fp. (fp, Inr (w fp))) fps)) [] 0
     = (map w (as_completed sched fps), sum_list (map chunks_count (map w (as_completed sched fps))))"
proof -
  have "collect_results (as_completed sched (map (\<lambda>fp. (fp, Inr (w fp))) fps)) [] 0
      = collect_results
          (map (\<lambda>x. (fst x, Inr (snd x))) (map (\<lambda>fp. (fp, w fp)) (as_completed sched fps))) [] 0"
    unfolding as_completed_map by (simp add: comp_def)
  also have "\<dots> = (map w (as_completed sched fps),
      sum_list (map chunks_count (map w (as_completed sched fps))))"
    unfolding collect_results_futures by (simp add: comp_def)
  finally show ?thesis .
qed

lemma process_single_document_cases:
  "(\<exists>e. process_stages p fp (file_format_of p fp) = Inl e
        \<and> process_single_document p fp = failed_result (path_str p fp) (file_format_of p fp) e)
   \<or> (process_stages p fp (file_format_of p fp) = Inr (process_single_document p fp)
        \<and> DocumentProcessingResult.success (process_single_document p fp))"
proof (cases "process_stages p fp (file_format_of p fp)")
  case (Inl e)
  then show ?thesis by (simp add: process_single_document_def)
next
  case (Inr r)
  then show ?thesis
    using process_stages_Inr [OF Inr] by (simp add: process_single_document_def)
qed

lemma translated_is_success:
  "translated (process_single_document p fp) \<Longrightarrow>
   DocumentProcessingResult.success (process_single_document p fp)"
  using process_single_document_cases [of p fp] by (auto simp: failed_result_def)

lemma summary_prints:
  assumes "fps \<noteq> []" and "rs = map (process_single_document p) (as_completed sched fps)"
  shows "print_pipeline_summary
     \<lparr>PipelineResult.success = s, total_files = length fps,
      processed_files = length (filter DocumentProcessingResult.success rs),
      failed_files = f, translated_files = length (filter translated rs),
      total_chunks = c, results = rs, error_message = m\<rparr> = None"
proof -
  have "0 < length (filter translated rs) \<Longrightarrow> 0 < length (filter DocumentProcessingResult.success rs)"
  proof -
    assume "0 < length (filter translated rs)"
    then obtain r where r: "r \<in> set rs" "translated r"
      by (metis filter_False length_greater_0_conv)
    then have "DocumentProcessingResult.success r"
      using assms(2) translated_is_success by auto
    with r show ?thesis
      by (metis filter_empty_conv length_greater_0_conv)
  qed
  then show ?thesis
    using assms(1) by (auto simp: print_pipeline_summary_def)
qed

text \<open>
  What \<open>ingest_documents\<close> returns, and when: the pool is built for a positive size,
  and the summary prints for a list that is not empty.
\<close>

lemma ingest_documents_returns:
  assumes "config_processing_settings (config p) = Some ps"
    and "0 < dict_get (max_concurrent_files ps) 5"
    and "fps \<noteq> []"
  shows "ingest_documents p sched fps =
     Inr (let rs = map (process_single_document p) (as_completed sched fps);
              processed = length (filter DocumentProcessingResult.success rs)
          in \<lparr>PipelineResult.success = (length rs - processed = 0),
              total_files = length fps,
              processed_files = processed,
              failed_files = length rs - processed,
              translated_files = length (filter translated rs),
              total_chunks = sum_list (map chunks_count rs),
              results = rs,
              error_message = None\<rparr>)"
  using assms summary_prints [OF assms(3) refl, where p = p and sched = sched]
  by (simp add: ingest_documents_def get_processing_settings_def collect_results_workers Let_def)

lemma ingest_documents_Inr:
  assumes "ingest_documents p sched fps = Inr R"
  shows "results R = map (process_single_document p) (as_completed sched fps)"
    and "total_files R = length fps"
    and "processed_files R = length (filter DocumentProcessingResult.success (results R))"
    and "failed_files R = length (results R) - processed_files R"
    and "PipelineResult.success R = (failed_files R = 0)"
  using assms
  by (auto simp: ingest_documents_def get_processing_settings_def collect_results_workers Let_def
      split: option.splits if_splits)

lemma ingest_documents_mset:
  "ingest_documents p sched fps = Inr R \<Longrightarrow>
   mset (results R) = mset (map (process_single_document p) fps)"
  using as_completed_mset [of sched fps] ingest_documents_Inr(1) [of p sched fps R]
  by (metis mset_map)

lemma no_failed_iff: "length xs - length (filter P xs) = 0 \<longleftrightarrow> (\<forall>x \<in> set xs. P x)"
proof -
  have "length xs - length (filter P xs) = 0 \<longleftrightarrow> length (filter P xs) = length xs"
    using length_filter_le [of P xs] by linarith
  also have "\<dots> \<longleftrightarrow> (\<forall>x \<in> set xs. P x)"
    by (metis filter_id_conv length_filter_less less_irrefl)
  finally show ?thesis .
qed

text \<open>The exceptions of the stages, in their order, each ending the \<open>try\<close> block.\<close>

lemma process_stages_raises:
  assumes "config_processing_settings (config p) = Some ps"
  shows "fmt \<notin> set (dict_get (supported_formats ps) []) \<Longrightarrow>
      process_stages p fp fmt = Inl (UnsupportedFormatError (''Unsupported format: '' @ fmt))"
    and "fmt \<in> set (dict_get (supported_formats ps) []) \<Longrightarrow>
      upload_document p (uuid4 p fp 0) (path_str p fp) = Inr blob \<Longrightarrow>
      fst (extract_text p (path_str p fp) fmt 0) = Inl e \<Longrightarrow>
      process_stages p fp fmt = Inl e"
    and "fmt \<in> set (dict_get (supported_formats ps) []) \<Longrightarrow>
      upload_document p (uuid4 p fp 0) (path_str p fp) = Inr blob \<Longrightarrow>
      fst (extract_text p (path_str p fp) fmt 0) = Inr t \<Longrightarrow>
      t = [] \<or> length (py_strip t) < 50 \<Longrightarrow>
      process_stages p fp fmt = Inl (PyException ''Insufficient text content extracted'')"
    and "fmt \<in> set (dict_get (supported_formats ps) []) \<Longrightarrow>
      upload_document p (uuid4 p fp 0) (path_str p fp) = Inr blob \<Longrightarrow>
      fst (extract_text p (path_str p fp) fmt 0) = Inr t \<Longrightarrow>
      t \<noteq> [] \<Longrightarrow> 50 \<le> length (py_strip t) \<Longrightarrow>
      detect_and_translate p t = (lang, final, tt, st) \<Longrightarrow>
      tt = None \<or> upload_translated_content p (uuid4 p fp 1) final (path_name p fp) lang = Inr u \<Longrightarrow>
      chunk_and_embed_content p final (path_name p fp) blob fmt = Inl e \<Longrightarrow>
      process_stages p fp fmt = Inl e"
  using assms by (auto simp: process_stages_def get_processing_settings_def)

lemma process_stages_no_settings:
  "config_processing_settings (config p) = None \<Longrightarrow>
   process_stages p fp fmt = Inl (KeyError ''processing_settings'')"
  by (simp add: process_stages_def get_processing_settings_def)

text \<open>
  C1. Every exception that a stage of \<open>_process_single_document\<close> can end with is
  caught there: the missing settings and the unsupported format of the format check, the
  exception of the upload of the document, of the extraction, the insufficient content,
  the exception of the upload of the translation and of the chunking (the language
  decision and the indexing raise nothing). In each case the function returns the failed
  result, whose \<open>error_message\<close> is the text of the exception. And a run with a document
  whose extraction raises returns a report that holds this failed result and, for every
  other document of the batch, the result that document has on its own.
\<close>

theorem process_single_document_isolates:
  assumes "fmt = file_format_of p fp"
  shows
   "(config_processing_settings (config p) = None \<longrightarrow>
       process_single_document p fp
         = failed_result (path_str p fp) fmt (KeyError ''processing_settings''))
    \<and> (config_processing_settings (config p) = Some ps
        \<and> fmt \<notin> set (dict_get (supported_formats ps) []) \<longrightarrow>
       process_single_document p fp
         = failed_result (path_str p fp) fmt (UnsupportedFormatError (''Unsupported format: '' @ fmt)))
    \<and> (config_processing_settings (config p) = Some ps
        \<and> fmt \<in> set (dict_get (supported_formats ps) [])
        \<and> upload_document p (uuid4 p fp 0) (path_str p fp) = Inl e \<longrightarrow>
       process_single_document p fp = failed_result (path_str p fp) fmt e)
    \<and> (config_processing_settings (config p) = Some ps
        \<and> fmt \<in> set (dict_get (supported_formats ps) [])
        \<and> upload_document p (uuid4 p fp 0) (path_str p fp) = Inr blob
        \<and> fst (extract_text p (path_str p fp) fmt 0) = Inl e \<longrightarrow>
       process_single_document p fp = failed_result (path_str p fp) fmt e)
    \<and> (config_processing_settings (config p) = Some ps
        \<and> fmt \<in> set (dict_get (supported_formats ps) [])
        \<and> upload_document p (uuid4 p fp 0) (path_str p fp) = Inr blob
        \<and> fst (extract_text p (path_str p fp) fmt 0) = Inr t
        \<and> (t = [] \<or> length (py_strip t) < 50) \<longrightarrow>
       process_single_document p fp
         = failed_result (path_str p fp) fmt (PyException ''Insufficient text content extracted''))
    \<and> (config_processing_settings (config p) = Some ps
        \<and> fmt \<in> set (dict_get (supported_formats ps) [])
        \<and> upload_document p (uuid4 p fp 0) (path_str p fp) = Inr blob
        \<and> fst (extract_text p (path_str p fp) fmt 0) = Inr t
        \<and> t \<noteq> [] \<and> 50 \<le> length (py_strip t)
        \<and> detect_and_translate p t = (lang, final, Some tt, st)
        \<and> upload_translated_content p (uuid4 p fp 1) final (path_name p fp) lang = Inl e \<longrightarrow>
       process_single_document p fp = failed_result (path_str p fp) fmt e)
    \<and> (config_processing_settings (config p) = Some ps
        \<and> fmt \<in> set (dict_get (supported_formats ps) [])
        \<and> upload_document p (uuid4 p fp 0) (path_str p fp) = Inr blob
        \<and> fst (extract_text p (path_str p fp) fmt 0) = Inr t
        \<and> t \<noteq> [] \<and> 50 \<le> length (py_strip t)
        \<and> detect_and_translate p t = (lang, final, tto, st)
        \<and> (tto = None
            \<or> upload_translated_content p (uuid4 p fp 1) final (path_name p fp) lang = Inr u)
        \<and> chunk_and_embed_content p final (path_name p fp) blob fmt = Inl e \<longrightarrow>
       process_single_document p fp = failed_result (path_str p fp) fmt e)
    \<and> (\<not> DocumentProcessingResult.success (failed_result (path_str p fp) fmt e)
        \<and> DocumentProcessingResult.error_message (failed_result (path_str p fp) fmt e)
            = Some (str_of e))
    \<and> (config_processing_settings (config p) = Some ps
        \<and> 0 < dict_get (max_concurrent_files ps) 5
        \<and> fp \<in> set fps \<and> other \<in> set fps
        \<and> fmt \<in> set (dict_get (supported_formats ps) [])
        \<and> upload_document p (uuid4 p fp 0) (path_str p fp) = Inr blob
        \<and> fst (extract_text p (path_str p fp) fmt 0) = Inl e \<longrightarrow>
       (\<exists>R. ingest_documents p sched fps = Inr R
          \<and> failed_result (path_str p fp) fmt e \<in> set (results R)
          \<and> process_single_document p other \<in> set (results R)
          \<and> mset (results R) = mset (map (process_single_document p) fps)))"
proof -
  have caught: "process_single_document p fp = failed_result (path_str p fp) fmt x"
    if "process_stages p fp fmt = Inl x" for x
    using that assms by (simp add: process_single_document_def)
  have k0: "config_processing_settings (config p) = None \<longrightarrow>
       process_single_document p fp
         = failed_result (path_str p fp) fmt (KeyError ''processing_settings'')"
    using process_stages_no_settings [of p fp fmt] caught by blast
  have k1: "config_processing_settings (config p) = Some ps
        \<and> fmt \<notin> set (dict_get (supported_formats ps) []) \<longrightarrow>
       process_single_document p fp
         = failed_result (path_str p fp) fmt (UnsupportedFormatError (''Unsupported format: '' @ fmt))"
    using process_stages_raises(1) [of p ps fmt fp] caught by blast
  have k2: "config_processing_settings (config p) = Some ps
        \<and> fmt \<in> set (dict_get (supported_formats ps) [])
        \<and> upload_document p (uuid4 p fp 0) (path_str p fp) = Inl e \<longrightarrow>
       process_single_document p fp = failed_result (path_str p fp) fmt e"
  proof
    assume "config_processing_settings (config p) = Some ps
        \<and> fmt \<in> set (dict_get (supported_formats ps) [])
        \<and> upload_document p (uuid4 p fp 0) (path_str p fp) = Inl e"
    then have "process_stages p fp fmt = Inl e"
      by (simp add: process_stages_def get_processing_settings_def)
    then show "process_single_document p fp = failed_result (path_str p fp) fmt e"
      by (rule caught)
  qed
  have k3: "config_processing_settings (config p) = Some ps
        \<and> fmt \<in> set (dict_get (supported_formats ps) [])
        \<and> upload_document p (uuid4 p fp 0) (path_str p fp) = Inr blob
        \<and> fst (extract_text p (path_str p fp) fmt 0) = Inl e \<longrightarrow>
       process_single_document p fp = failed_result (path_str p fp) fmt e"
    using process_stages_raises(2) [of p ps fmt fp blob e] caught by blast
  have k4: "config_processing_settings (config p) = Some ps
        \<and> fmt \<in> set (dict_get (supported_formats ps) [])
        \<and> upload_document p (uuid4 p fp 0) (path_str p fp) = Inr blob
        \<and> fst (extract_text p (path_str p fp) fmt 0) = Inr t
        \<and> (t = [] \<or> length (py_strip t) < 50) \<longrightarrow>
       process_single_document p fp
         = failed_result (path_str p fp) fmt (PyException ''Insufficient text content extracted'')"
    using process_stages_raises(3) [of p ps fmt fp blob t] caught by blast
  have k5: "config_processing_settings (config p) = Some ps
        \<and> fmt \<in> set (dict_get (supported_formats ps) [])
        \<and> upload_document p (uuid4 p fp 0) (path_str p fp) = Inr blob
        \<and> fst (extract_text p (path_str p fp) fmt 0) = Inr t
        \<and> t \<noteq> [] \<and> 50 \<le> length (py_strip t)
        \<and> detect_and_translate p t = (lang, final, Some tt, st)
        \<and> upload_translated_content p (uuid4 p fp 1) final (path_name p fp) lang = Inl e \<longrightarrow>
       process_single_document p fp = failed_result (path_str p fp) fmt e"
  proof
    assume "config_processing_settings (config p) = Some ps
        \<and> fmt \<in> set (dict_get (supported_formats ps) [])
        \<and> upload_document p (uuid4 p fp 0) (path_str p fp) = Inr blob
        \<and> fst (extract_text p (path_str p fp) fmt 0) = Inr t
        \<and> t \<noteq> [] \<and> 50 \<le> length (py_strip t)
        \<and> detect_and_translate p t = (lang, final, Some tt, st)
        \<and> upload_translated_content p (uuid4 p fp 1) final (path_name p fp) lang = Inl e"
    then have "process_stages p fp fmt = Inl e"
      by (simp add: process_stages_def get_processing_settings_def)
    then show "process_single_document p fp = failed_result (path_str p fp) fmt e"
      by (rule caught)
  qed
  have k6: "config_processing_settings (config p) = Some ps
        \<and> fmt \<in> set (dict_get (supported_formats ps) [])
        \<and> upload_document p (uuid4 p fp 0) (path_str p fp) = Inr blob
        \<and> fst (extract_text p (path_str p fp) fmt 0) = Inr t
        \<and> t \<noteq> [] \<and> 50 \<le> length (py_strip t)
        \<and> detect_and_translate p t = (lang, final, tto, st)
        \<and> (tto = None
            \<or> upload_translated_content p (uuid4 p fp 1) final (path_name p fp) lang = Inr u)
        \<and> chunk_and_embed_content p final (path_name p fp) blob fmt = Inl e \<longrightarrow>
       process_single_document p fp = failed_result (path_str p fp) fmt e"
    using process_stages_raises(4) [of p ps fmt fp blob t lang final tto st u e] caught by blast
  have k7: "\<not> DocumentProcessingResult.success (failed_result (path_str p fp) fmt e)
        \<and> DocumentProcessingResult.error_message (failed_result (path_str p fp) fmt e)
            = Some (str_of e)"
    by (simp add: failed_result_def)
  have k8: "config_processing_settings (config p) = Some ps
        \<and> 0 < dict_get (max_concurrent_files ps) 5
        \<and> fp \<in> set fps \<and> other \<in> set fps
        \<and> fmt \<in> set (dict_get (supported_formats ps) [])
        \<and> upload_document p (uuid4 p fp 0) (path_str p fp) = Inr blob
        \<and> fst (extract_text p (path_str p fp) fmt 0) = Inl e \<longrightarrow>
       (\<exists>R. ingest_documents p sched fps = Inr R
          \<and> failed_result (path_str p fp) fmt e \<in> set (results R)
          \<and> process_single_document p other \<in> set (results R)
          \<and> mset (results R) = mset (map (process_single_document p) fps))"
  proof
    assume h: "config_processing_settings (config p) = Some ps
        \<and> 0 < dict_get (max_concurrent_files ps) 5
        \<and> fp \<in> set fps \<and> other \<in> set fps
        \<and> fmt \<in> set (dict_get (supported_formats ps) [])
        \<and> upload_document p (uuid4 p fp 0) (path_str p fp) = Inr blob
        \<and> fst (extract_text p (path_str p fp) fmt 0) = Inl e"
    then have f: "process_single_document p fp = failed_result (path_str p fp) fmt e"
      using k3 by blast
    from h have "fps \<noteq> []"
      by auto
    then obtain R where R: "ingest_documents p sched fps = Inr R"
      using h ingest_documents_returns [of p ps fps sched] by auto
    have m: "mset (results R) = mset (map (process_single_document p) fps)"
      using R by (rule ingest_documents_mset)
    then have "set (results R) = set (map (process_single_document p) fps)"
      by (rule mset_eq_setD)
    then have "process_single_document p fp \<in> set (results R)"
      and "process_single_document p other \<in> set (results R)"
      using h by simp_all
    with R m f show "\<exists>R. ingest_documents p sched fps = Inr R
          \<and> failed_result (path_str p fp) fmt e \<in> set (results R)
          \<and> process_single_document p other \<in> set (results R)
          \<and> mset (results R) = mset (map (process_single_document p) fps)"
      by auto
  qed
  show ?thesis
    by (intro conjI k0 k1 k2 k3 k4 k5 k6 k7 [THEN conjunct1] k7 [THEN conjunct2] k8)
qed

theorem process_single_document_isolates_witness:
  "process_single_document example_pipeline_no_settings ''a.txt''
     = failed_result ''a.txt'' ''txt'' (KeyError ''processing_settings'')
   \<and> ''zip'' \<notin> set (dict_get (supported_formats example_settings) [])
   \<and> process_single_document example_pipeline ''b.zip''
       = failed_result ''b.zip'' ''zip'' (UnsupportedFormatError ''Unsupported format: zip'')
   \<and> upload_document example_pipeline_no_storage ''0000'' ''a.txt''
       = Inl (PyException ''Blob storage client not available'')
   \<and> process_single_document example_pipeline_no_storage ''a.txt''
       = failed_result ''a.txt'' ''txt'' (PyException ''Blob storage client not available'')
   \<and> fst (extract_text example_pipeline_unreadable ''missing.txt'' ''txt'' 0)
       = Inl (Error ''FileNotFoundError'' ''No such file or directory'')
   \<and> process_single_document example_pipeline_unreadable ''missing.txt''
       = failed_result ''missing.txt'' ''txt'' (Error ''FileNotFoundError'' ''No such file or directory'')
   \<and> DocumentProcessingResult.error_message
         (process_single_document example_pipeline_unreadable ''missing.txt'')
       = Some ''No such file or directory''
   \<and> fst (extract_text example_pipeline ''empty.txt'' ''txt'' 0) = Inr []
   \<and> process_single_document example_pipeline ''empty.txt''
       = failed_result ''empty.txt'' ''txt'' (PyException ''Insufficient text content extracted'')
   \<and> upload_translated_content example_pipeline_translated_upload_fails ''0000''
         example_translation ''a.txt'' ''fr''
       = Inl (Error ''ServiceRequestError'' ''storage unavailable'')
   \<and> process_single_document example_pipeline_translated_upload_fails ''a.txt''
       = failed_result ''a.txt'' ''txt'' (Error ''ServiceRequestError'' ''storage unavailable'')
   \<and> chunk_and_embed_content example_pipeline_zero_step example_translation ''a.txt''
         ''https://blob/documents/0000-a.txt'' ''txt''
       = Inl (ValueError ''range() arg 3 must not be zero'')
   \<and> process_single_document example_pipeline_zero_step ''a.txt''
       = failed_result ''a.txt'' ''txt'' (ValueError ''range() arg 3 must not be zero'')
   \<and> DocumentProcessingResult.success (process_single_document example_pipeline_unreadable ''a.txt'')
   \<and> (\<exists>R. ingest_documents example_pipeline_unreadable [1] [''a.txt'', ''missing.txt''] = Inr R
        \<and> failed_result ''missing.txt'' ''txt''
             (Error ''FileNotFoundError'' ''No such file or directory'') \<in> set (results R)
        \<and> process_single_document example_pipeline_unreadable ''a.txt'' \<in> set (results R)
        \<and> mset (results R)
            = mset (map (process_single_document example_pipeline_unreadable) [''a.txt'', ''missing.txt'']))"
proof -
  let ?blob = "''https://blob/documents/0000-a.txt''"
  let ?stats = "Some [(''characters'', ''59'')]"
  \<comment> \<open>the settings are missing\<close>
  let ?n = example_pipeline_no_settings
  have n1: "''txt'' = file_format_of ?n ''a.txt''" and n2: "path_str ?n ''a.txt'' = ''a.txt''"
    and n3: "config_processing_settings (config ?n) = None"
    by code_simp+
  have w0: "process_single_document ?n ''a.txt''
      = failed_result ''a.txt'' ''txt'' (KeyError ''processing_settings'')"
    by (rule mp [OF process_single_document_isolates [OF n1, unfolded n2, THEN conjunct1] n3])
  \<comment> \<open>the format check\<close>
  let ?p = example_pipeline
  have p1: "''zip'' = file_format_of ?p ''b.zip''" and p2: "path_str ?p ''b.zip'' = ''b.zip''"
    and p3: "config_processing_settings (config ?p) = Some example_settings"
    and p4: "''zip'' \<notin> set (dict_get (supported_formats example_settings) [])"
    and p5: "''Unsupported format: '' @ ''zip'' = ''Unsupported format: zip''"
    by code_simp+
  have w1: "process_single_document ?p ''b.zip''
      = failed_result ''b.zip'' ''zip'' (UnsupportedFormatError ''Unsupported format: zip'')"
    by (rule mp [OF process_single_document_isolates [OF p1, where ps = example_settings,
          unfolded p2 p5, THEN conjunct2, THEN conjunct1]])
       (intro conjI p3 p4)
  \<comment> \<open>the upload of the document\<close>
  let ?q = example_pipeline_no_storage
  let ?qe = "PyException ''Blob storage client not available''"
  have supported: "''txt'' \<in> set (dict_get (supported_formats example_settings) [])"
    by code_simp
  have q1: "''txt'' = file_format_of ?q ''a.txt''" and q2: "path_str ?q ''a.txt'' = ''a.txt''"
    and q3: "config_processing_settings (config ?q) = Some example_settings"
    and q4: "uuid4 ?q ''a.txt'' 0 = ''0000''"
    and q5: "upload_document ?q ''0000'' ''a.txt'' = Inl ?qe"
    by code_simp+
  have w2: "process_single_document ?q ''a.txt'' = failed_result ''a.txt'' ''txt'' ?qe"
    by (rule mp [OF process_single_document_isolates [OF q1, where ps = example_settings
          and e = ?qe, unfolded q2 q4, THEN conjunct2, THEN conjunct2, THEN conjunct1]])
       (intro conjI q3 supported q5)
  \<comment> \<open>the extraction, alone and in a batch\<close>
  let ?u = example_pipeline_unreadable
  let ?ue = "Error ''FileNotFoundError'' ''No such file or directory''"
  let ?fps = "[''a.txt'', ''missing.txt'']"
  have u1: "''txt'' = file_format_of ?u ''missing.txt''"
    and u2: "path_str ?u ''missing.txt'' = ''missing.txt''"
    and u3: "config_processing_settings (config ?u) = Some example_settings"
    and u4: "uuid4 ?u ''missing.txt'' 0 = ''0000''"
    and u5: "upload_document ?u ''0000'' ''missing.txt'' = Inr ''https://blob/documents/0000-missing.txt''"
    and u6: "fst (extract_text ?u ''missing.txt'' ''txt'' 0) = Inl ?ue"
    and u7: "0 < dict_get (max_concurrent_files example_settings) 5"
    and u8: "DocumentProcessingResult.success (process_single_document ?u ''a.txt'')"
    by code_simp+
  have u9: "''missing.txt'' \<in> set ?fps" "''a.txt'' \<in> set ?fps"
    by simp_all
  have u10: "str_of ?ue = ''No such file or directory''"
    by (simp add: str_of_def)
  note ut = process_single_document_isolates [OF u1, where ps = example_settings and e = ?ue
      and blob = "''https://blob/documents/0000-missing.txt''" and fps = ?fps
      and other = "''a.txt''" and sched = "[1]", unfolded u2 u4 u10]
  have w3: "process_single_document ?u ''missing.txt'' = failed_result ''missing.txt'' ''txt'' ?ue"
    by (rule mp [OF ut [THEN conjunct2, THEN conjunct2, THEN conjunct2, THEN conjunct1]]) (intro conjI u3 supported u5 u6)
  have w3m: "DocumentProcessingResult.error_message (process_single_document ?u ''missing.txt'')
      = Some ''No such file or directory''"
    unfolding w3 by (rule ut [THEN conjunct2, THEN conjunct2, THEN conjunct2, THEN conjunct2, THEN conjunct2, THEN conjunct2, THEN conjunct2, THEN conjunct1, THEN conjunct2])
  have w8: "\<exists>R. ingest_documents ?u [1] ?fps = Inr R
        \<and> failed_result ''missing.txt'' ''txt'' ?ue \<in> set (results R)
        \<and> process_single_document ?u ''a.txt'' \<in> set (results R)
        \<and> mset (results R) = mset (map (process_single_document ?u) ?fps)"
    by (rule mp [OF ut [THEN conjunct2, THEN conjunct2, THEN conjunct2, THEN conjunct2, THEN conjunct2, THEN conjunct2, THEN conjunct2, THEN conjunct2]]) (intro conjI u3 u7 u9 supported u5 u6)
  \<comment> \<open>the content check\<close>
  let ?pe = "PyException ''Insufficient text content extracted''"
  have e1: "''txt'' = file_format_of ?p ''empty.txt''"
    and e2: "path_str ?p ''empty.txt'' = ''empty.txt''"
    and e4: "uuid4 ?p ''empty.txt'' 0 = ''0000''"
    and e5: "upload_document ?p ''0000'' ''empty.txt'' = Inr ''https://blob/documents/0000-empty.txt''"
    and e6: "fst (extract_text ?p ''empty.txt'' ''txt'' 0) = Inr []"
    by code_simp+
  have w4: "process_single_document ?p ''empty.txt'' = failed_result ''empty.txt'' ''txt'' ?pe"
    by (rule mp [OF process_single_document_isolates [OF e1, where ps = example_settings
          and t = "[]" and blob = "''https://blob/documents/0000-empty.txt''",
          unfolded e2 e4, THEN conjunct2, THEN conjunct2, THEN conjunct2, THEN conjunct2, THEN conjunct1]])
       (intro conjI p3 supported e5 e6 disjI1 refl)
  \<comment> \<open>the upload of the translation\<close>
  let ?t = example_pipeline_translated_upload_fails
  let ?te = "Error ''ServiceRequestError'' ''storage unavailable''"
  have t1: "''txt'' = file_format_of ?t ''a.txt''" and t2: "path_str ?t ''a.txt'' = ''a.txt''"
    and t3: "config_processing_settings (config ?t) = Some example_settings"
    and t4: "uuid4 ?t ''a.txt'' 0 = ''0000''" "uuid4 ?t ''a.txt'' 1 = ''0000''"
      "path_name ?t ''a.txt'' = ''a.txt''"
    and t5: "upload_document ?t ''0000'' ''a.txt'' = Inr ?blob"
    and t6: "fst (extract_text ?t ''a.txt'' ''txt'' 0) = Inr example_text"
    and t7: "example_text \<noteq> []" "50 \<le> length (py_strip example_text)"
    and t8: "detect_and_translate ?t example_text
        = (''fr'', example_translation, Some example_translation, ?stats)"
    and t9: "upload_translated_content ?t ''0000'' example_translation ''a.txt'' ''fr'' = Inl ?te"
    by code_simp+
  have w5: "process_single_document ?t ''a.txt'' = failed_result ''a.txt'' ''txt'' ?te"
    by (rule mp [OF process_single_document_isolates [OF t1, where ps = example_settings
          and e = ?te and blob = ?blob and t = example_text and lang = "''fr''"
          and final = example_translation and tt = example_translation and st = ?stats,
          unfolded t2 t4, THEN conjunct2, THEN conjunct2, THEN conjunct2, THEN conjunct2, THEN conjunct2, THEN conjunct1]])
       (intro conjI t3 supported t5 t6 t7 t8 t9)
  \<comment> \<open>the chunking\<close>
  let ?z = example_pipeline_zero_step
  let ?zs = "example_settings\<lparr>chunk_overlap := Some 3\<rparr>"
  let ?ze = "ValueError ''range() arg 3 must not be zero''"
  have z1: "''txt'' = file_format_of ?z ''a.txt''" and z2: "path_str ?z ''a.txt'' = ''a.txt''"
    and z3: "config_processing_settings (config ?z) = Some ?zs"
    and z4: "uuid4 ?z ''a.txt'' 0 = ''0000''" "uuid4 ?z ''a.txt'' 1 = ''0000''"
      "path_name ?z ''a.txt'' = ''a.txt''"
    and z5: "upload_document ?z ''0000'' ''a.txt'' = Inr ?blob"
    and z6: "fst (extract_text ?z ''a.txt'' ''txt'' 0) = Inr example_text"
    and z8: "detect_and_translate ?z example_text
        = (''fr'', example_translation, Some example_translation, ?stats)"
    and z9: "upload_translated_content ?z ''0000'' example_translation ''a.txt'' ''fr''
        = Inr ''https://blob/translated/fr-to-en/0000-a.txt.txt''"
    and z10: "chunk_and_embed_content ?z example_translation ''a.txt'' ?blob ''txt'' = Inl ?ze"
    and z11: "''txt'' \<in> set (dict_get (supported_formats ?zs) [])"
    by code_simp+
  have w6: "process_single_document ?z ''a.txt'' = failed_result ''a.txt'' ''txt'' ?ze"
    by (rule mp [OF process_single_document_isolates [OF z1, where ps = ?zs and e = ?ze
          and blob = ?blob and t = example_text and lang = "''fr''"
          and final = example_translation and tto = "Some example_translation" and st = ?stats
          and u = "''https://blob/translated/fr-to-en/0000-a.txt.txt''",
          unfolded z2 z4, THEN conjunct2, THEN conjunct2, THEN conjunct2, THEN conjunct2, THEN conjunct2, THEN conjunct2, THEN conjunct1]])
       (intro conjI z3 z11 z5 z6 t7 z8 disjI2 z9 z10)
  show ?thesis
    by (intro conjI w0 p4 w1 q5 w2 u6 w3 w3m e6 w4 t9 w5 z10 w6 u8 w8)
qed

text \<open>
  C2. \<open>ingest_documents\<close> returns a report for every list that is not empty, once
  the settings are there and the pool has a positive size. In every report it returns, the
  processed and the failed files add up to the total, the total is the number of paths,
  and the results are the results of the input documents, one for each.
\<close>

theorem ingest_documents_counts_every_document:
  "(config_processing_settings (config p) = Some ps \<and> 0 < dict_get (max_concurrent_files ps) 5
      \<and> fps \<noteq> [] \<longrightarrow> (\<exists>R. ingest_documents p sched fps = Inr R))
   \<and> (ingest_documents p sched fps = Inr R \<longrightarrow>
        processed_files R + failed_files R = total_files R
        \<and> total_files R = length fps
        \<and> length (results R) = length fps
        \<and> mset (results R) = mset (map (process_single_document p) fps))"
proof (intro conjI impI)
  assume "config_processing_settings (config p) = Some ps \<and> 0 < dict_get (max_concurrent_files ps) 5
      \<and> fps \<noteq> []"
  then show "\<exists>R. ingest_documents p sched fps = Inr R"
    using ingest_documents_returns [of p ps fps sched] by simp
next
  assume R: "ingest_documents p sched fps = Inr R"
  have m: "mset (results R) = mset (map (process_single_document p) fps)"
    using R by (rule ingest_documents_mset)
  then have l: "length (results R) = length fps"
    by (metis length_map mset_eq_length)
  have "processed_files R \<le> length (results R)"
    using ingest_documents_Inr(3) [OF R] by simp
  then show "processed_files R + failed_files R = total_files R"
    using ingest_documents_Inr(2,4) [OF R] l by simp
  show "total_files R = length fps"
    using ingest_documents_Inr(2) [OF R] .
  show "length (results R) = length fps"
    by (rule l)
  show "mset (results R) = mset (map (process_single_document p) fps)"
    by (rule m)
qed

theorem ingest_documents_counts_every_document_witness:
  "config_processing_settings (config example_pipeline) = Some example_settings
   \<and> 0 < dict_get (max_concurrent_files example_settings) 5
   \<and> [''a.txt'', ''empty.txt'', ''b.zip''] \<noteq> []
   \<and> (\<exists>R. ingest_documents example_pipeline [1, 0] [''a.txt'', ''empty.txt'', ''b.zip''] = Inr R
        \<and> processed_files R + failed_files R = total_files R
        \<and> total_files R = 3 \<and> length (results R) = 3 \<and> processed_files R = 1)"
proof -
  let ?p = example_pipeline and ?fps = "[''a.txt'', ''empty.txt'', ''b.zip'']"
  have c: "config_processing_settings (config ?p) = Some example_settings"
    by code_simp
  have w: "0 < dict_get (max_concurrent_files example_settings) 5"
    by code_simp
  have n: "?fps \<noteq> []"
    by simp
  note t = ingest_documents_counts_every_document [of ?p example_settings ?fps "[1, 0]"]
  obtain R where R: "ingest_documents ?p [1, 0] ?fps = Inr R"
    using t c w n by blast
  have p: "map_sum id processed_files (ingest_documents ?p [1, 0] ?fps) = Inr 1"
    by code_simp
  have "processed_files R + failed_files R = total_files R \<and> total_files R = length ?fps
      \<and> length (results R) = length ?fps"
    using t [of R] R by blast
  moreover have "processed_files R = 1"
    using p R by simp
  ultimately have "\<exists>R. ingest_documents ?p [1, 0] ?fps = Inr R
        \<and> processed_files R + failed_files R = total_files R
        \<and> total_files R = 3 \<and> length (results R) = 3 \<and> processed_files R = 1"
    using R by (intro exI [of _ R]) simp
  then show ?thesis
    using c w n by (intro conjI)
qed

text \<open>
  C10. The flag \<open>success\<close> of a report is true exactly when \<open>failed_files\<close> is 0, which
  is exactly when every result in it is a success. A run with a document that fails
  returns a report all the same: one with a result for every document and the flag false.
\<close>

theorem run_success_iff_no_failure:
  "(ingest_documents p sched fps = Inr R \<longrightarrow>
      (PipelineResult.success R \<longleftrightarrow> failed_files R = 0)
      \<and> (PipelineResult.success R \<longleftrightarrow> (\<forall>r \<in> set (results R). DocumentProcessingResult.success r)))
   \<and> (config_processing_settings (config p) = Some ps \<and> 0 < dict_get (max_concurrent_files ps) 5
      \<and> fp \<in> set fps \<and> \<not> DocumentProcessingResult.success (process_single_document p fp) \<longrightarrow>
      (\<exists>R. ingest_documents p sched fps = Inr R \<and> \<not> PipelineResult.success R
         \<and> 0 < failed_files R
         \<and> mset (results R) = mset (map (process_single_document p) fps)))"
proof -
  have iff: "(PipelineResult.success R \<longleftrightarrow> failed_files R = 0)
      \<and> (PipelineResult.success R \<longleftrightarrow> (\<forall>r \<in> set (results R). DocumentProcessingResult.success r))"
    if R: "ingest_documents p sched fps = Inr R" for R
  proof -
    have "failed_files R = 0 \<longleftrightarrow> (\<forall>r \<in> set (results R). DocumentProcessingResult.success r)"
      using ingest_documents_Inr(3,4) [OF R]
        no_failed_iff [of "results R" DocumentProcessingResult.success] by simp
    then show ?thesis
      using ingest_documents_Inr(5) [OF R] by simp
  qed
  have fails: "\<exists>R. ingest_documents p sched fps = Inr R \<and> \<not> PipelineResult.success R
         \<and> 0 < failed_files R
         \<and> mset (results R) = mset (map (process_single_document p) fps)"
    if h: "config_processing_settings (config p) = Some ps \<and> 0 < dict_get (max_concurrent_files ps) 5
      \<and> fp \<in> set fps \<and> \<not> DocumentProcessingResult.success (process_single_document p fp)"
  proof -
    from h have "fps \<noteq> []"
      by auto
    then obtain R where R: "ingest_documents p sched fps = Inr R"
      using h ingest_documents_returns [of p ps fps sched] by auto
    have m: "mset (results R) = mset (map (process_single_document p) fps)"
      using R by (rule ingest_documents_mset)
    then have "set (results R) = set (map (process_single_document p) fps)"
      by (rule mset_eq_setD)
    then have "process_single_document p fp \<in> set (results R)"
      using h by simp
    then have "\<not> (\<forall>r \<in> set (results R). DocumentProcessingResult.success r)"
      using h by blast
    then have "\<not> PipelineResult.success R" "0 < failed_files R"
      using iff [OF R] by auto
    with R m show ?thesis
      by blast
  qed
  show ?thesis
    using iff fails by blast
qed

theorem run_success_iff_no_failure_witness:
  "config_processing_settings (config example_pipeline) = Some example_settings
   \<and> 0 < dict_get (max_concurrent_files example_settings) 5
   \<and> ''empty.txt'' \<in> set [''a.txt'', ''empty.txt'']
   \<and> \<not> DocumentProcessingResult.success (process_single_document example_pipeline ''empty.txt'')
   \<and> (\<exists>R. ingest_documents example_pipeline [0] [''a.txt'', ''empty.txt''] = Inr R
        \<and> \<not> PipelineResult.success R \<and> 0 < failed_files R
        \<and> (\<exists>r. r \<in> set (results R) \<and> \<not> DocumentProcessingResult.success r))"
proof -
  let ?p = example_pipeline and ?fps = "[''a.txt'', ''empty.txt'']"
  have c: "config_processing_settings (config ?p) = Some example_settings"
    by code_simp
  have w: "0 < dict_get (max_concurrent_files example_settings) 5"
    by code_simp
  have i: "''empty.txt'' \<in> set ?fps"
    by simp
  have f: "\<not> DocumentProcessingResult.success (process_single_document ?p ''empty.txt'')"
    by code_simp
  note t = run_success_iff_no_failure [of ?p "[0]" ?fps _ example_settings "''empty.txt''"]
  obtain R where R: "ingest_documents ?p [0] ?fps = Inr R" "\<not> PipelineResult.success R"
      "0 < failed_files R"
    using t c w i f by blast
  have "\<exists>r. r \<in> set (results R) \<and> \<not> DocumentProcessingResult.success r"
    using t [of R] R by blast
  with R have "\<exists>R. ingest_documents ?p [0] ?fps = Inr R
        \<and> \<not> PipelineResult.success R \<and> 0 < failed_files R
        \<and> (\<exists>r. r \<in> set (results R) \<and> \<not> DocumentProcessingResult.success r)"
    by (intro exI [of _ R] conjI)
  then show ?thesis
    using c w i f by (intro conjI)
qed

section \<open>The uploads to storage\<close>

lemma process_stages_upload_fails:
  assumes "config_processing_settings (config p) = Some ps"
    and "fmt \<in> set (dict_get (supported_formats ps) [])"
    and "upload_document p (uuid4 p fp 0) (path_str p fp) = Inl e"
  shows "process_stages p fp fmt = Inl e"
  using assms by (simp add: process_stages_def get_processing_settings_def)

lemma process_stages_translated_upload_fails:
  assumes "config_processing_settings (config p) = Some ps"
    and "fmt \<in> set (dict_get (supported_formats ps) [])"
    and "upload_document p (uuid4 p fp 0) (path_str p fp) = Inr blob"
    and "fst (extract_text p (path_str p fp) fmt 0) = Inr text"
    and "text \<noteq> []" and "50 \<le> length (py_strip text)"
    and "detect_and_translate p text = (lang, final, Some tt, st)"
    and "upload_translated_content p (uuid4 p fp 1) final (path_name p fp) lang = Inl e"
  shows "process_stages p fp fmt = Inl e"
  using assms by (simp add: process_stages_def get_processing_settings_def)

text \<open>
  C3, as the claim states it, fails: the call of \<open>upload_translated_content\<close> stands in
  the \<open>try\<close> block of \<open>_process_single_document\<close> like the other stages. Here the
  original document is stored, the text is translated, the upload of the translation is
  refused, and the document fails.
\<close>

theorem translated_upload_failure_counterexample:
  "upload_document example_pipeline_translated_upload_fails ''0000'' ''a.txt''
     = Inr ''https://blob/documents/0000-a.txt''
   \<and> detect_and_translate example_pipeline_translated_upload_fails example_text
       = (''fr'', example_translation, Some example_translation, Some [(''characters'', ''59'')])
   \<and> upload_translated_content example_pipeline_translated_upload_fails ''0000''
         example_translation ''a.txt'' ''fr''
       = Inl (Error ''ServiceRequestError'' ''storage unavailable'')
   \<and> \<not> DocumentProcessingResult.success
         (process_single_document example_pipeline_translated_upload_fails ''a.txt'')
   \<and> DocumentProcessingResult.error_message
         (process_single_document example_pipeline_translated_upload_fails ''a.txt'')
       = Some ''storage unavailable''"
  by code_simp

text \<open>
  C3, amended. For a document that is translated, a failure of the upload of the
  translated text is a failure of the document, as a failure of the upload of the
  original document is: in both cases \<open>_process_single_document\<close> returns a failed result
  with the text of the exception.
\<close>

theorem upload_failures_fail_document:
  assumes "config_processing_settings (config p) = Some ps"
    and "file_format_of p fp \<in> set (dict_get (supported_formats ps) [])"
  shows "(upload_document p (uuid4 p fp 0) (path_str p fp) = Inr blob
       \<and> fst (extract_text p (path_str p fp) (file_format_of p fp) 0) = Inr text
       \<and> text \<noteq> [] \<and> 50 \<le> length (py_strip text)
       \<and> detect_and_translate p text = (lang, final, Some tt, st)
       \<and> upload_translated_content p (uuid4 p fp 1) final (path_name p fp) lang = Inl e
      \<longrightarrow> process_single_document p fp = failed_result (path_str p fp) (file_format_of p fp) e
          \<and> \<not> DocumentProcessingResult.success (process_single_document p fp)
          \<and> DocumentProcessingResult.error_message (process_single_document p fp) = Some (str_of e))
    \<and> (upload_document p (uuid4 p fp 0) (path_str p fp) = Inl e
      \<longrightarrow> process_single_document p fp = failed_result (path_str p fp) (file_format_of p fp) e
          \<and> \<not> DocumentProcessingResult.success (process_single_document p fp)
          \<and> DocumentProcessingResult.error_message (process_single_document p fp) = Some (str_of e))"
proof -
  have failed: "process_single_document p fp = failed_result (path_str p fp) (file_format_of p fp) e
          \<and> \<not> DocumentProcessingResult.success (process_single_document p fp)
          \<and> DocumentProcessingResult.error_message (process_single_document p fp) = Some (str_of e)"
    if "process_stages p fp (file_format_of p fp) = Inl e"
    using that by (simp add: process_single_document_def failed_result_def)
  show ?thesis
  proof (intro conjI impI)
    assume "upload_document p (uuid4 p fp 0) (path_str p fp) = Inr blob
       \<and> fst (extract_text p (path_str p fp) (file_format_of p fp) 0) = Inr text
       \<and> text \<noteq> [] \<and> 50 \<le> length (py_strip text)
       \<and> detect_and_translate p text = (lang, final, Some tt, st)
       \<and> upload_translated_content p (uuid4 p fp 1) final (path_name p fp) lang = Inl e"
    then have "process_stages p fp (file_format_of p fp) = Inl e"
      using process_stages_translated_upload_fails [OF assms, of fp blob "text" lang final tt st e]
      by simp
    then show "process_single_document p fp = failed_result (path_str p fp) (file_format_of p fp) e"
      and "\<not> DocumentProcessingResult.success (process_single_document p fp)"
      and "DocumentProcessingResult.error_message (process_single_document p fp) = Some (str_of e)"
      using failed by blast+
  next
    assume "upload_document p (uuid4 p fp 0) (path_str p fp) = Inl e"
    then have "process_stages p fp (file_format_of p fp) = Inl e"
      using process_stages_upload_fails [OF assms] by simp
    then show "process_single_document p fp = failed_result (path_str p fp) (file_format_of p fp) e"
      and "\<not> DocumentProcessingResult.success (process_single_document p fp)"
      and "DocumentProcessingResult.error_message (process_single_document p fp) = Some (str_of e)"
      using failed by blast+
  qed
qed

theorem upload_failures_fail_document_witness:
  "config_processing_settings (config example_pipeline_translated_upload_fails) = Some example_settings
   \<and> file_format_of example_pipeline_translated_upload_fails ''a.txt''
       \<in> set (dict_get (supported_formats example_settings) [])
   \<and> upload_document example_pipeline_translated_upload_fails
         (uuid4 example_pipeline_translated_upload_fails ''a.txt'' 0)
         (path_str example_pipeline_translated_upload_fails ''a.txt'')
       = Inr ''https://blob/documents/0000-a.txt''
   \<and> fst (extract_text example_pipeline_translated_upload_fails
              (path_str example_pipeline_translated_upload_fails ''a.txt'')
              (file_format_of example_pipeline_translated_upload_fails ''a.txt'') 0) = Inr example_text
   \<and> example_text \<noteq> [] \<and> 50 \<le> length (py_strip example_text)
   \<and> detect_and_translate example_pipeline_translated_upload_fails example_text
       = (''fr'', example_translation, Some example_translation, Some [(''characters'', ''59'')])
   \<and> upload_translated_content example_pipeline_translated_upload_fails
         (uuid4 example_pipeline_translated_upload_fails ''a.txt'' 1) example_translation
         (path_name example_pipeline_translated_upload_fails ''a.txt'') ''fr''
       = Inl (Error ''ServiceRequestError'' ''storage unavailable'')
   \<and> \<not> DocumentProcessingResult.success
         (process_single_document example_pipeline_translated_upload_fails ''a.txt'')
   \<and> config_processing_settings (config example_pipeline_no_storage) = Some example_settings
   \<and> file_format_of example_pipeline_no_storage ''a.txt''
       \<in> set (dict_get (supported_formats example_settings) [])
   \<and> upload_document example_pipeline_no_storage (uuid4 example_pipeline_no_storage ''a.txt'' 0)
         (path_str example_pipeline_no_storage ''a.txt'')
       = Inl (PyException ''Blob storage client not available'')
   \<and> \<not> DocumentProcessingResult.success (process_single_document example_pipeline_no_storage ''a.txt'')"
proof -
  let ?p = example_pipeline_translated_upload_fails and ?q = example_pipeline_no_storage
  have h1: "config_processing_settings (config ?p) = Some example_settings"
    by code_simp
  have h2: "file_format_of ?p ''a.txt'' \<in> set (dict_get (supported_formats example_settings) [])"
    by code_simp
  have h3: "upload_document ?p (uuid4 ?p ''a.txt'' 0) (path_str ?p ''a.txt'')
      = Inr ''https://blob/documents/0000-a.txt''"
    by code_simp
  have h4: "fst (extract_text ?p (path_str ?p ''a.txt'') (file_format_of ?p ''a.txt'') 0) = Inr example_text"
    by code_simp
  have h5: "example_text \<noteq> []" "50 \<le> length (py_strip example_text)"
    by code_simp+
  have h6: "detect_and_translate ?p example_text
      = (''fr'', example_translation, Some example_translation, Some [(''characters'', ''59'')])"
    by code_simp
  have h7: "upload_translated_content ?p (uuid4 ?p ''a.txt'' 1) example_translation
      (path_name ?p ''a.txt'') ''fr'' = Inl (Error ''ServiceRequestError'' ''storage unavailable'')"
    by code_simp
  have g1: "config_processing_settings (config ?q) = Some example_settings"
    by code_simp
  have g2: "file_format_of ?q ''a.txt'' \<in> set (dict_get (supported_formats example_settings) [])"
    by code_simp
  have g3: "upload_document ?q (uuid4 ?q ''a.txt'' 0) (path_str ?q ''a.txt'')
      = Inl (PyException ''Blob storage client not available'')"
    by code_simp
  note t = upload_failures_fail_document [OF h1 h2,
      where blob = "''https://blob/documents/0000-a.txt''" and ?text = example_text
        and lang = "''fr''" and final = example_translation and tt = example_translation
        and st = "Some [(''characters'', ''59'')]"
        and e = "Error ''ServiceRequestError'' ''storage unavailable''"]
  have "process_single_document ?p ''a.txt''
        = failed_result (path_str ?p ''a.txt'') (file_format_of ?p ''a.txt'')
            (Error ''ServiceRequestError'' ''storage unavailable'')
      \<and> \<not> DocumentProcessingResult.success (process_single_document ?p ''a.txt'')
      \<and> DocumentProcessingResult.error_message (process_single_document ?p ''a.txt'')
          = Some (str_of (Error ''ServiceRequestError'' ''storage unavailable''))"
    by (rule mp [OF conjunct1 [OF t]]) (intro conjI h3 h4 h5 h6 h7)
  then have a: "\<not> DocumentProcessingResult.success (process_single_document ?p ''a.txt'')"
    by (rule conjunct1 [OF conjunct2])
  note u = upload_failures_fail_document [OF g1 g2,
      where e = "PyException ''Blob storage client not available''"]
  have "process_single_document ?q ''a.txt''
        = failed_result (path_str ?q ''a.txt'') (file_format_of ?q ''a.txt'')
            (PyException ''Blob storage client not available'')
      \<and> \<not> DocumentProcessingResult.success (process_single_document ?q ''a.txt'')
      \<and> DocumentProcessingResult.error_message (process_single_document ?q ''a.txt'')
          = Some (str_of (PyException ''Blob storage client not available''))"
    by (rule mp [OF conjunct2 [OF u] g3])
  then have b: "\<not> DocumentProcessingResult.success (process_single_document ?q ''a.txt'')"
    by (rule conjunct1 [OF conjunct2])
  show ?thesis
    by (intro conjI h1 h2 h3 h4 h5 h6 h7 a g1 g2 g3 b)
qed

section \<open>Extraction from a pdf\<close>

text \<open>
  When the fast path is not there or raises, \<open>_extract_from_pdf\<close> is one call of the
  analysis, which makes at most one request.
\<close>

lemma extract_from_pdf_fallback:
  "\<not> PDF_LIBS_AVAILABLE p \<or> isl (pdfplumber_pages p path) \<Longrightarrow>
   extract_from_pdf p path n = extract_with_document_intelligence p path n"
  by (auto simp: extract_from_pdf_def split: sum.splits)

lemma extract_with_document_intelligence_requests:
  "snd (extract_with_document_intelligence p path n) \<le> Suc n"
  by (simp add: extract_with_document_intelligence_def split: sum.splits option.splits)

text \<open>
  A short text layer and an analysis whose first request raises: the request is made a
  second time, whatever it then answers.
\<close>

lemma extract_from_pdf_second_request:
  assumes "PDF_LIBS_AVAILABLE p"
    and "pdfplumber_pages p path = Inr pages"
    and "text_content = concat (map (\<lambda>t. case t of None \<Rightarrow> [] | Some s \<Rightarrow> if s = [] then [] else [s]) pages)"
    and "text_content = [] \<or> length (py_strip (py_join [CHR 0x0A] text_content)) < 100"
    and "doc_intelligence_client p"
    and "open_rb p path = Inr f"
    and "begin_analyze_document p f n = Inl e"
  shows "extract_from_pdf p path n = extract_with_document_intelligence p path (Suc n)"
    and "snd (extract_from_pdf p path n) = n + 2"
proof -
  have 1: "extract_with_document_intelligence p path n = (Inl e, Suc n)"
    using assms by (simp add: extract_with_document_intelligence_def)
  let ?tc = "concat (map (\<lambda>t. case t of None \<Rightarrow> [] | Some s \<Rightarrow> if s = [] then [] else [s]) pages)"
  have short: "?tc = [] \<or> length (py_strip (py_join [CHR 0x0A] ?tc)) < 100"
    using assms(3,4) by simp
  show 2: "extract_from_pdf p path n = extract_with_document_intelligence p path (Suc n)"
  proof (cases "?tc = []")
    case True
    then show ?thesis
      using assms(1,2) 1 by (simp add: extract_from_pdf_def Let_def)
  next
    case False
    then have "length (py_strip (py_join [CHR 0x0A] ?tc)) < 100"
      using short by blast
    then show ?thesis
      using assms(1,2) 1 False by (simp add: extract_from_pdf_def Let_def)
  qed
  show "snd (extract_from_pdf p path n) = n + 2"
    unfolding 2 using assms(5,6)
    by (simp add: extract_with_document_intelligence_def split: sum.splits option.splits)
qed

text \<open>
  C5. The code does not do what the claim says where it says that the analysis is invoked
  exactly once.
  The text layer of this pdf has ten characters, so the analysis is called; its first
  request times out; the call stands inside the \<open>try\<close> block, so the bare \<open>except\<close>
  calls the analysis a second time: two requests are made for the one document.
\<close>

theorem extract_from_pdf_analyses_twice:
  "pdfplumber_pages example_pipeline ''scan.pdf'' = Inr [Some ''short text'']
   \<and> begin_analyze_document example_pipeline ''bytes'' 0
       = Inl (Error ''HttpResponseError'' ''request timed out'')
   \<and> extract_from_pdf example_pipeline ''scan.pdf'' 0 = (Inr example_text, 2)"
  by code_simp

end
